theory Spec2Isabelle
  imports Main
begin

section \<open>Machine integers of the downloader\<close>

text \<open>
  Offsets, lengths and block sizes are Go \<open>int64\<close> values. They are modelled as
  mathematical integers with the two's complement wrap-around written out: every
  arithmetic result passes through \<open>wrap64\<close>. Go's integer division truncates
  towards zero and panics on a zero divisor; the panic is a branch of \<open>initDownload\<close>.
\<close>

definition wrap64 :: "int \<Rightarrow> int" where
  "wrap64 x = (x + 2 ^ 63) mod 2 ^ 64 - 2 ^ 63"

definition go_div :: "int \<Rightarrow> int \<Rightarrow> int" where
  "go_div a b = wrap64 (sgn a * sgn b * (\<bar>a\<bar> div \<bar>b\<bar>))"

definition in_int64 :: "int \<Rightarrow> bool" where
  "in_int64 x = (- (2 ^ 63) \<le> x \<and> x < 2 ^ 63)"

section \<open>Data model of \<open>utils/downloader.go\<close>\<close>

record BlockMetaData =
  BeginOffset :: int
  EndOffset :: int
  DownloadedSize :: int

text \<open>
  The error values that the downloader and the worker pool can produce. \<open>ErrStatus n\<close>
  is the error "response status unsuccessful: n"; \<open>Panic\<close> stands for a Go run-time
  panic (integer division by zero, slice bounds out of range, nil dereference).
\<close>

datatype error =
    ErrUnsupportedMultiThreading
  | ErrStatus int
  | ErrUnknownStatus
  | ErrTransport string
  | ErrFs string
  | ErrRead string
  | ErrUrl string
  | ErrJson string
  | Panic string

text \<open>
  One call of \<open>Read\<close> on a response body returns some bytes (at most \<open>bufferSize\<close> of
  them, the length of the buffer) together with \<open>nil\<close>, \<open>io.EOF\<close> or another error. A
  body is the list of the results of its successive \<open>Read\<close> calls; once the list is used
  up, \<open>Read\<close> returns no bytes and \<open>io.EOF\<close>.
\<close>

datatype readErr = NoErr | EOF | ReadFail string

type_synonym body = "(string \<times> readErr) list"

record response =
  StatusCode :: int
  ContentLength :: int
  Body :: body

text \<open>
  A request is the URL and the header map (\<open>req.Header\<close>, from canonical key to value).
\<close>

record request =
  reqUrl :: string
  reqHeaders :: "string \<rightharpoonup> string"

text \<open>
  The file-system calls of the program that can fail, each with the path it is made
  on: \<open>os.OpenFile\<close> with \<open>O_WRONLY\<close>, with \<open>O_WRONLY|O_CREATE\<close> and with
  \<open>O_WRONLY|O_CREATE|O_TRUNC\<close>, \<open>Seek\<close>, \<open>Write\<close>, \<open>os.MkdirAll\<close> (for the directory
  of the path), \<open>os.Open\<close>, \<open>os.Create\<close> and \<open>io.Copy\<close> from one file to another.
\<close>

datatype fsop =
    OpenWr string
  | OpenCreate string
  | OpenTrunc string
  | SeekOp string
  | WriteOp string
  | MkdirAll string
  | OpenRd string
  | CreateOp string
  | CopyOp string string

text \<open>
  The environment: the files (path to content), the outcomes of the successive
  \<open>Client.Do\<close> calls still to come, the requests sent so far, the file-system operations
  that fail, and the URLs that \<open>http.NewRequest\<close> rejects.
\<close>

record world =
  files :: "string \<rightharpoonup> string"
  net :: "(error + response) list"
  sent :: "request list"
  fsErr :: "fsop \<Rightarrow> error option"
  urlErr :: "string \<Rightarrow> error option"

text \<open>
  The downloader task. \<open>Headers\<close> is the Go map of the task, as the list of its entries
  in the order in which \<open>range\<close> visits them. \<open>OnFailure\<close> tells whether the hook is set (not \<open>nil\<close>); a call
  of the hook is an event of the executor. The HTTP client is the environment. The
  progress bar and the sleeps of the rate limiter change no result and no order of the
  effects modelled here, and are left out.
\<close>

record MultiThreadDownloader =
  Url :: string
  SavePath :: string
  FileName :: string
  FullPath :: string
  FinalPath :: string
  Headers :: "(string \<times> string) list"
  Blocks :: "BlockMetaData list"
  ThreadCount :: int
  OnFailure :: bool
  RetryCount :: int

definition defaultUA :: string where
  "defaultUA = ''Mozilla/5.0 (Windows NT 10.0; Win64; x64) AppleWebKit/537.36 (KHTML, like Gecko) Chrome/86.0.4240.198 Safari/537.36''"

definition bufferSize :: int where
  "bufferSize = 8 * 1024 * 1024"

text \<open>ASCII case mapping.\<close>

definition lower :: "char \<Rightarrow> char" where
  "lower c =
     (case map_of (zip ''ABCDEFGHIJKLMNOPQRSTUVWXYZ'' ''abcdefghijklmnopqrstuvwxyz'') c of
        Some l \<Rightarrow> l
      | None \<Rightarrow> c)"

definition upper :: "char \<Rightarrow> char" where
  "upper c =
     (case map_of (zip ''abcdefghijklmnopqrstuvwxyz'' ''ABCDEFGHIJKLMNOPQRSTUVWXYZ'') c of
        Some u \<Rightarrow> u
      | None \<Rightarrow> c)"

text \<open>
  \<open>Header.Set\<close> stores a value under the canonical form of its key
  (\<open>textproto.CanonicalMIMEHeaderKey\<close>): a key made of token bytes only gets its first
  letter and every letter after a hyphen in upper case and the other letters in lower
  case; any other key is left as it is.
\<close>

definition validHeaderFieldByte :: "char \<Rightarrow> bool" where
  "validHeaderFieldByte c =
     (c \<in> set (''!#$%&*+-.^_|~0123456789'' @ [CHR 0x27, CHR 0x60]
               @ ''abcdefghijklmnopqrstuvwxyz'' @ ''ABCDEFGHIJKLMNOPQRSTUVWXYZ''))"

fun canon :: "bool \<Rightarrow> string \<Rightarrow> string" where
  "canon up [] = []"
| "canon up (c # cs) = (if up then upper c else lower c) # canon (c = CHR ''-'') cs"

definition CanonicalMIMEHeaderKey :: "string \<Rightarrow> string" where
  "CanonicalMIMEHeaderKey k = (if list_all validHeaderFieldByte k then canon True k else k)"

definition headerSet :: "string \<Rightarrow> string \<Rightarrow> (string \<rightharpoonup> string) \<Rightarrow> (string \<rightharpoonup> string)" where
  "headerSet k v h = h(CanonicalMIMEHeaderKey k \<mapsto> v)"

text \<open>
  The header map that all three requests start from: every header of the task is set
  in turn; then, when the task's map has no entry under the exact key \<open>User-Agent\<close>,
  the default user agent is stored under that key, over whatever the loop put there.
\<close>

definition setHeaders :: "(string \<times> string) list \<Rightarrow> string \<rightharpoonup> string" where
  "setHeaders hs =
     (let h = foldl (\<lambda>h kv. headerSet (fst kv) (snd kv) h) Map.empty hs
      in if map_of hs ''User-Agent'' = None then h(''User-Agent'' \<mapsto> defaultUA) else h)"

text \<open>\<open>strconv.FormatInt(i, 10)\<close>.\<close>

fun showNat :: "nat \<Rightarrow> string" where
  "showNat n =
     (if n < 10 then [''0123456789'' ! n]
      else showNat (n div 10) @ [''0123456789'' ! (n mod 10)])"

declare showNat.simps [simp del]

definition FormatInt :: "int \<Rightarrow> string" where
  "FormatInt i = (if i < 0 then CHR ''-'' # showNat (nat (- i)) else showNat (nat i))"

definition client_Do :: "request \<Rightarrow> world \<Rightarrow> (error + response) \<times> world" where
  "client_Do req w =
     (case net w of
        [] \<Rightarrow> (Inl (ErrTransport ''connection refused''), w\<lparr>sent := sent w @ [req]\<rparr>)
      | r # rs \<Rightarrow> (r, w\<lparr>net := rs, sent := sent w @ [req]\<rparr>))"

section \<open>Streaming a body to the destination\<close>

text \<open>
  Every path writes the file through \<open>bufio.NewWriterSize(file, bufferSize)\<close>. The
  writer holds the bytes buffered and not yet written, its sticky error, and (for the
  model) the bytes that have reached the file through it. A write to the file itself
  either goes through or, when the world makes \<open>Write\<close> on that path fail, writes
  nothing and returns the error.
\<close>

record Writer =
  buffered :: string
  stickyErr :: "error option"
  written :: string

definition NewWriterSize :: Writer where
  "NewWriterSize = \<lparr>buffered = [], stickyErr = None, written = []\<rparr>"

definition Available :: "Writer \<Rightarrow> nat" where
  "Available b = nat bufferSize - length (buffered b)"

text \<open>
  \<open>Writer.Write\<close>. With a sticky error nothing is done. Bytes that fit in the buffer
  are only buffered. Otherwise, on an empty buffer the bytes go straight to the file;
  on a buffer that holds something the buffer is filled up and flushed, and the rest
  is written to the file when it is larger than the buffer and buffered when not. The
  result is what \<open>Write\<close> returns as error.
\<close>

definition bufWrite :: "error option \<Rightarrow> string \<Rightarrow> Writer \<Rightarrow> error option \<times> Writer" where
  "bufWrite fault p b =
     (if stickyErr b \<noteq> None then (stickyErr b, b)
      else if length p \<le> Available b then (None, b\<lparr>buffered := buffered b @ p\<rparr>)
      else if buffered b = [] then
        (case fault of
           Some e \<Rightarrow> (Some e, b\<lparr>stickyErr := Some e\<rparr>)
         | None \<Rightarrow> (None, b\<lparr>written := written b @ p\<rparr>))
      else
        (case fault of
           Some e \<Rightarrow>
             (Some e, b\<lparr>buffered := buffered b @ take (Available b) p, stickyErr := Some e\<rparr>)
         | None \<Rightarrow>
             (let flushed = written b @ buffered b @ take (Available b) p;
                  rest = drop (Available b) p
              in if length rest > nat bufferSize
                 then (None, b\<lparr>buffered := [], written := flushed @ rest\<rparr>)
                 else (None, b\<lparr>buffered := rest, written := flushed\<rparr>))))"

text \<open>
  \<open>Writer.Flush\<close>, as the deferred call of every path uses it: the error it returns
  is dropped, so only the writer after the call matters.
\<close>

definition bufFlush :: "error option \<Rightarrow> Writer \<Rightarrow> Writer" where
  "bufFlush fault b =
     (if stickyErr b \<noteq> None \<or> buffered b = [] then b
      else (case fault of
              Some e \<Rightarrow> b\<lparr>stickyErr := Some e\<rparr>
            | None \<Rightarrow> b\<lparr>buffered := [], written := written b @ buffered b\<rparr>))"

text \<open>
  \<open>io.CopyBuffer(pw, limiter, buf)\<close>: read until \<open>io.EOF\<close> or an error, writing every
  non-empty chunk to the writer; the first write or read error ends the copy. The rate
  limiter and the progress writer pass bytes and errors through unchanged.
\<close>

fun copyBuffer :: "error option \<Rightarrow> body \<Rightarrow> Writer \<Rightarrow> error option \<times> Writer" where
  "copyBuffer fault [] b = (None, b)"
| "copyBuffer fault ((d, re) # rest) b =
     (case (if d \<noteq> [] then bufWrite fault d b else (None, b)) of
        (Some e, b') \<Rightarrow> (Some e, b')
      | (None, b') \<Rightarrow>
          (case re of
             EOF \<Rightarrow> (None, b')
           | ReadFail e \<Rightarrow> (Some (ErrRead e), b')
           | NoErr \<Rightarrow> copyBuffer fault rest b'))"

text \<open>
  The closure \<open>copyStream\<close> of \<open>initDownload\<close>: truncate the destination, copy the body
  into it through a new writer, and return \<open>ErrUnsupportedMultiThreading\<close> when the copy
  returned no error. The deferred \<open>Flush\<close> runs on every return after the open.
\<close>

definition copyStream :: "MultiThreadDownloader \<Rightarrow> body \<Rightarrow> world \<Rightarrow> error option \<times> world" where
  "copyStream m s w =
     (case fsErr w (OpenTrunc (FullPath m)) of
        Some e \<Rightarrow> (Some e, w)
      | None \<Rightarrow>
          (case copyBuffer (fsErr w (WriteOp (FullPath m))) s NewWriterSize of
             (err, b) \<Rightarrow>
               (let w' = w\<lparr>files := (files w)(FullPath m \<mapsto>
                             written (bufFlush (fsErr w (WriteOp (FullPath m))) b))\<rparr>
                in (case err of
                      Some e \<Rightarrow> (Some e, w')
                    | None \<Rightarrow> (Some ErrUnsupportedMultiThreading, w')))))"

section \<open>Partitioning the content into blocks\<close>

definition blockSize :: "int \<Rightarrow> int \<Rightarrow> int" where
  "blockSize contentLength threadCount =
     (if contentLength > 1024 * 1024
      then wrap64 (go_div contentLength threadCount - 10)
      else contentLength)"

definition mkBlock :: "int \<Rightarrow> int \<Rightarrow> BlockMetaData" where
  "mkBlock b e = \<lparr>BeginOffset = b, EndOffset = e, DownloadedSize = 0\<rparr>"

text \<open>
  The loop \<open>for tmp+blockSize < contentLength\<close> of \<open>initDownload\<close>, followed by the
  append of the last block. The loop need not end (a block size of zero never advances
  \<open>tmp\<close>), so not returning is the value \<open>None\<close>.
\<close>

partial_function (option) partitionBlocks ::
  "int \<Rightarrow> int \<Rightarrow> int \<Rightarrow> BlockMetaData list \<Rightarrow> BlockMetaData list option" where
  "partitionBlocks tmp bs contentLength blocks =
     (if wrap64 (tmp + bs) < contentLength
      then partitionBlocks (wrap64 (tmp + bs)) bs contentLength
             (blocks @ [mkBlock tmp (wrap64 (wrap64 (tmp + bs) - 1))])
      else Some (blocks @ [mkBlock tmp (wrap64 (contentLength - 1))]))"

declare partitionBlocks.simps [code]

definition probeRequest :: "MultiThreadDownloader \<Rightarrow> request" where
  "probeRequest m =
     \<lparr>reqUrl = Url m, reqHeaders = headerSet ''range'' ''bytes=0-'' (setHeaders (Headers m))\<rparr>"

text \<open>
  \<open>initDownload\<close>: probe with \<open>range: bytes=0-\<close>; a status outside 2xx is an error; 200
  streams the body through \<open>copyStream\<close>; 206 computes the block size and either
  streams (block size equal to the content length) or fills \<open>Blocks\<close>. The result is
  the returned error (\<open>None\<close> is Go's \<open>nil\<close>), the downloader and the world; the outer
  \<open>option\<close> is \<open>None\<close> when the partition loop does not return.
\<close>

definition initDownload ::
  "MultiThreadDownloader \<Rightarrow> world \<Rightarrow> (error option \<times> MultiThreadDownloader \<times> world) option" where
  "initDownload m w =
     (case urlErr w (Url m) of
        Some e \<Rightarrow> Some (Some e, m, w)
      | None \<Rightarrow>
          (case client_Do (probeRequest m) w of
             (Inl e, w1) \<Rightarrow> Some (Some e, m, w1)
           | (Inr resp, w1) \<Rightarrow>
               if StatusCode resp < 200 \<or> StatusCode resp \<ge> 300
               then Some (Some (ErrStatus (StatusCode resp)), m, w1)
               else if StatusCode resp = 200
               then (case copyStream m (Body resp) w1 of (err, w2) \<Rightarrow> Some (err, m, w2))
               else if StatusCode resp = 206
               then
                 (let contentLength = ContentLength resp in
                  if contentLength > 1024 * 1024 \<and> ThreadCount m = 0
                  then Some (Some (Panic ''integer divide by zero''), m, w1)
                  else if blockSize contentLength (ThreadCount m) = contentLength
                  then (case copyStream m (Body resp) w1 of (err, w2) \<Rightarrow> Some (err, m, w2))
                  else
                    (case partitionBlocks 0 (blockSize contentLength (ThreadCount m))
                            contentLength (Blocks m) of
                       None \<Rightarrow> None
                     | Some blocks \<Rightarrow> Some (None, m\<lparr>Blocks := blocks\<rparr>, w1)))
               else Some (Some ErrUnknownStatus, m, w1)))"

section \<open>Downloading one block\<close>

text \<open>
  \<open>downloadBlocks\<close> opens the destination (a second time with \<open>O_CREATE\<close> when the
  first open fails), seeks to the block's begin, sends the range request and copies the
  body chunk by chunk. The request was built with its error ignored, so an invalid URL
  is a nil dereference at the first use of the request.
\<close>

definition openForBlock :: "string \<Rightarrow> world \<Rightarrow> error + world" where
  "openForBlock p w =
     (if files w p \<noteq> None \<and> fsErr w (OpenWr p) = None then Inr w
      else (case fsErr w (OpenCreate p) of
              Some e \<Rightarrow> Inl e
            | None \<Rightarrow> Inr (if files w p = None then w\<lparr>files := (files w)(p \<mapsto> [])\<rparr> else w)))"

definition blockRequest :: "MultiThreadDownloader \<Rightarrow> BlockMetaData \<Rightarrow> request" where
  "blockRequest m block =
     \<lparr>reqUrl = Url m,
      reqHeaders =
        headerSet ''range''
          (''bytes='' @ FormatInt (BeginOffset block) @ ''-'' @ FormatInt (EndOffset block))
          (setHeaders (Headers m))\<rparr>"

text \<open>
  The body of \<open>if n > 0\<close> in the read loop: clip the chunk to the bytes the block still
  lacks, write them to the writer, advance the block. The first component is \<open>Some r\<close>
  when the loop is left here with result \<open>r\<close> (a panic of the slice expression
  \<open>buffer[:bytesToWrite]\<close>, an error returned by \<open>writer.Write\<close>, or the \<open>break\<close> at
  \<open>BeginOffset > EndOffset\<close>), and \<open>None\<close> when control goes on to the checks of
  \<open>readErr\<close>.
\<close>

definition writeChunk ::
  "error option \<Rightarrow> string \<Rightarrow> BlockMetaData \<Rightarrow> Writer
     \<Rightarrow> error option option \<times> BlockMetaData \<times> Writer" where
  "writeChunk fault d block b =
     (if d = [] then (None, block, b)
      else
        (let remaining = wrap64 (wrap64 (EndOffset block + 1) - BeginOffset block);
             bytesToWrite = (if int (length d) > remaining then remaining else int (length d))
         in if bytesToWrite < 0 then (Some (Some (Panic ''slice bounds out of range'')), block, b)
            else
              (case bufWrite fault (take (nat bytesToWrite) d) b of
                 (Some e, b') \<Rightarrow> (Some (Some e), block, b')
               | (None, b') \<Rightarrow>
                   (let block' = block\<lparr>BeginOffset := wrap64 (BeginOffset block + bytesToWrite),
                                      DownloadedSize := wrap64 (DownloadedSize block + bytesToWrite)\<rparr>
                    in if BeginOffset block' > EndOffset block' then (Some None, block', b')
                       else (None, block', b')))))"

fun readLoop ::
  "error option \<Rightarrow> body \<Rightarrow> BlockMetaData \<Rightarrow> Writer \<Rightarrow> error option \<times> BlockMetaData \<times> Writer" where
  "readLoop fault [] block b = (None, block, b)"
| "readLoop fault ((d, re) # rest) block b =
     (case writeChunk fault d block b of
        (Some r, block', b') \<Rightarrow> (r, block', b')
      | (None, block', b') \<Rightarrow>
          (case re of
             EOF \<Rightarrow> (None, block', b')
           | ReadFail e \<Rightarrow> (Some (ErrRead e), block', b')
           | NoErr \<Rightarrow> readLoop fault rest block' b'))"

text \<open>
  The file after the block's handle is closed: the bytes that reached the file were
  written from the offset of the seek onward; a write beyond the end leaves a hole of
  zero bytes.
\<close>

definition writeAt :: "string \<Rightarrow> nat \<Rightarrow> string \<Rightarrow> string" where
  "writeAt content off data =
     (if data = [] then content
      else take off (content @ replicate (off - length content) (CHR 0x00)) @ data
           @ drop (off + length data) content)"

definition flushAt :: "string \<Rightarrow> int \<Rightarrow> string \<Rightarrow> world \<Rightarrow> world" where
  "flushAt p off out w =
     w\<lparr>files := (files w)(p \<mapsto> writeAt (case files w p of None \<Rightarrow> [] | Some c \<Rightarrow> c) (nat off) out)\<rparr>"

definition downloadBlocks ::
  "MultiThreadDownloader \<Rightarrow> BlockMetaData \<Rightarrow> world \<Rightarrow> error option \<times> BlockMetaData \<times> world" where
  "downloadBlocks m block w =
     (case openForBlock (FullPath m) w of
        Inl e \<Rightarrow> (Some e, block, w)
      | Inr w1 \<Rightarrow>
          if BeginOffset block < 0 then (Some (ErrFs ''seek: invalid argument''), block, w1)
          else (case fsErr w1 (SeekOp (FullPath m)) of
                  Some e \<Rightarrow> (Some e, block, w1)
                | None \<Rightarrow>
                    if urlErr w1 (Url m) \<noteq> None
                    then (Some (Panic ''nil pointer dereference''), block, w1)
                    else (case client_Do (blockRequest m block) w1 of
                            (Inl e, w2) \<Rightarrow> (Some e, block, w2)
                          | (Inr resp, w2) \<Rightarrow>
                              if StatusCode resp < 200 \<or> StatusCode resp \<ge> 300
                              then (Some (ErrStatus (StatusCode resp)), block, w2)
                              else (case readLoop (fsErr w2 (WriteOp (FullPath m))) (Body resp)
                                           block NewWriterSize of
                                      (err, block', b) \<Rightarrow>
                                        (err, block',
                                         flushAt (FullPath m) (BeginOffset block)
                                           (written (bufFlush (fsErr w2 (WriteOp (FullPath m))) b))
                                           w2)))))"

section \<open>The single-stream path and the orchestration\<close>

definition plainRequest :: "MultiThreadDownloader \<Rightarrow> request" where
  "plainRequest m = \<lparr>reqUrl = Url m, reqHeaders = setHeaders (Headers m)\<rparr>"

definition singleThreadDownload :: "MultiThreadDownloader \<Rightarrow> world \<Rightarrow> error option \<times> world" where
  "singleThreadDownload m w =
     (case fsErr w (OpenTrunc (FullPath m)) of
        Some e \<Rightarrow> (Some e, w)
      | None \<Rightarrow>
          (let w0 = w\<lparr>files := (files w)(FullPath m \<mapsto> [])\<rparr>
           in (case urlErr w0 (Url m) of
                 Some e \<Rightarrow> (Some e, w0)
               | None \<Rightarrow>
                   (case client_Do (plainRequest m) w0 of
                      (Inl e, w1) \<Rightarrow> (Some e, w1)
                    | (Inr resp, w1) \<Rightarrow>
                        (case copyBuffer (fsErr w1 (WriteOp (FullPath m))) (Body resp)
                                NewWriterSize of
                           (err, b) \<Rightarrow>
                             (err, w1\<lparr>files := (files w1)(FullPath m \<mapsto>
                                     written (bufFlush (fsErr w1 (WriteOp (FullPath m))) b))\<rparr>))))))"

fun isPanic :: "error option \<Rightarrow> bool" where
  "isPanic (Some (Panic s)) = True"
| "isPanic e = False"

text \<open>
  The goroutines of \<open>Download\<close>, one per block, write disjoint regions through handles
  of their own and each draws one response from the network; they are run here in the
  order of \<open>Blocks\<close>. \<open>lastErr\<close> is the error of the last block that failed. A panic
  ends the process, so nothing runs after it.
\<close>

fun runBlocks ::
  "MultiThreadDownloader \<Rightarrow> BlockMetaData list \<Rightarrow> world \<Rightarrow> error option
     \<Rightarrow> error option \<times> BlockMetaData list \<times> world" where
  "runBlocks m [] w lastErr = (lastErr, [], w)"
| "runBlocks m (b # bs) w lastErr =
     (case downloadBlocks m b w of
        (err, b', w') \<Rightarrow>
          if isPanic err then (err, b' # bs, w')
          else (case runBlocks m bs w' (case err of None \<Rightarrow> lastErr | Some e \<Rightarrow> Some e) of
                  (r, bs', w'') \<Rightarrow> (r, b' # bs', w'')))"

definition Download ::
  "MultiThreadDownloader \<Rightarrow> world \<Rightarrow> (error option \<times> MultiThreadDownloader \<times> world) option" where
  "Download m w =
     (if ThreadCount m < 2
      then (case singleThreadDownload m w of (err, w') \<Rightarrow> Some (err, m, w'))
      else (case initDownload m w of
              None \<Rightarrow> None
            | Some (Some e, m1, w1) \<Rightarrow>
                if e = ErrUnsupportedMultiThreading
                then (case singleThreadDownload m1 w1 of (err, w') \<Rightarrow> Some (err, m1, w'))
                else Some (Some e, m1, w1)
            | Some (None, m1, w1) \<Rightarrow>
                (case runBlocks m1 (Blocks m1) w1 None of
                   (err, bs, w2) \<Rightarrow> Some (err, m1\<lparr>Blocks := bs\<rparr>, w2))))"

section \<open>The cache-usage probe of \<open>utils/worker.go\<close>\<close>

definition RclonePauseThreshold :: int where
  "RclonePauseThreshold = 18 * 1024 * 1024 * 1024"

definition RcloneResumeThreshold :: int where
  "RcloneResumeThreshold = 15 * 1024 * 1024 * 1024"

text \<open>
  JSON values as \<open>encoding/json\<close> sees them. A number literal is \<open>JInt\<close> when it is
  written as a plain integer (what \<open>strconv.ParseInt\<close> accepts) and \<open>JReal\<close> when it
  has a fraction or an exponent. An object keeps its members in order.
\<close>

datatype json =
    JNull
  | JBool bool
  | JInt int
  | JReal
  | JString string
  | JArray "json list"
  | JObject "(string \<times> json) list"

text \<open>
  \<open>json.Unmarshal\<close> into \<open>RcloneVFSStats\<close>, the struct with the one nested field
  \<open>DiskCache.BytesUsed\<close> (\<open>int64\<close>). A key selects a field when the two are equal
  under Unicode simple case folding. The names of the two fields are ASCII, and the
  only runes outside ASCII that fold to an ASCII letter are U+017F (long s, the bytes
  \<open>C5 BF\<close> in UTF-8), which folds to \<open>s\<close>, and U+212A (the Kelvin sign, the bytes
  \<open>E2 84 AA\<close>), which folds to \<open>k\<close>; \<open>foldName\<close> folds these two runes and the ASCII
  letters and leaves every other byte as it is, so that \<open>foldEq k f\<close> is the decoder's
  test for a key \<open>k\<close> (a string of UTF-8) and an ASCII field name \<open>f\<close>. Unknown keys are
  skipped, \<open>null\<close> leaves the target as it is, a value of the wrong kind or out of the
  range of \<open>int64\<close> is a type error. The decoder keeps the first error and goes on; the
  state is the field's value and the saved error.
\<close>

fun foldName :: "string \<Rightarrow> string" where
  "foldName [] = []"
| "foldName (c # cs) =
     (case cs of
        [] \<Rightarrow> [lower c]
      | d # ds \<Rightarrow>
          if c = CHR 0xC5 \<and> d = CHR 0xBF then CHR ''s'' # foldName ds
          else (case ds of
                  [] \<Rightarrow> lower c # foldName cs
                | e # es \<Rightarrow>
                    if c = CHR 0xE2 \<and> d = CHR 0x84 \<and> e = CHR 0xAA
                    then CHR ''k'' # foldName es
                    else lower c # foldName cs))"

definition foldEq :: "string \<Rightarrow> string \<Rightarrow> bool" where
  "foldEq a b = (foldName a = foldName b)"

definition saveError :: "error \<Rightarrow> int \<times> error option \<Rightarrow> int \<times> error option" where
  "saveError e st = (case snd st of None \<Rightarrow> (fst st, Some e) | Some e' \<Rightarrow> st)"

fun decodeBytesUsed :: "json \<Rightarrow> int \<times> error option \<Rightarrow> int \<times> error option" where
  "decodeBytesUsed JNull st = st"
| "decodeBytesUsed (JInt n) st =
     (if in_int64 n then (n, snd st)
      else saveError (ErrJson ''cannot unmarshal number into int64'') st)"
| "decodeBytesUsed j st = saveError (ErrJson ''cannot unmarshal into int64'') st"

fun decodeMembers ::
  "string \<Rightarrow> (json \<Rightarrow> int \<times> error option \<Rightarrow> int \<times> error option)
     \<Rightarrow> (string \<times> json) list \<Rightarrow> int \<times> error option \<Rightarrow> int \<times> error option" where
  "decodeMembers field dec [] st = st"
| "decodeMembers field dec ((k, v) # kvs) st =
     decodeMembers field dec kvs (if foldEq k field then dec v st else st)"

fun decodeDiskCache :: "json \<Rightarrow> int \<times> error option \<Rightarrow> int \<times> error option" where
  "decodeDiskCache JNull st = st"
| "decodeDiskCache (JObject kvs) st = decodeMembers ''bytesUsed'' decodeBytesUsed kvs st"
| "decodeDiskCache j st = saveError (ErrJson ''cannot unmarshal into struct'') st"

fun Unmarshal :: "json \<Rightarrow> int \<times> error option" where
  "Unmarshal JNull = (0, None)"
| "Unmarshal (JObject kvs) = decodeMembers ''diskCache'' decodeDiskCache kvs (0, None)"
| "Unmarshal j = (0, Some (ErrJson ''cannot unmarshal into RcloneVFSStats''))"

text \<open>
  What one \<open>http.Post\<close> to the rclone endpoint brings back: a connection error, or a
  response with its status code and the result of \<open>io.ReadAll\<close> on its body. The
  bytes of the body are given by the JSON value they denote, \<open>None\<close> when they are not
  well-formed JSON.
\<close>

record probeResponse =
  probeStatus :: int
  probeBody :: "error + json option"

type_synonym probe = "error + probeResponse"

definition getRcloneCacheUsage :: "probe \<Rightarrow> int \<times> error option" where
  "getRcloneCacheUsage p =
     (case p of
        Inl e \<Rightarrow> (0, Some e)
      | Inr resp \<Rightarrow>
          (case probeBody resp of
             Inl e \<Rightarrow> (0, Some e)
           | Inr None \<Rightarrow> (0, Some (ErrJson ''invalid character''))
           | Inr (Some j) \<Rightarrow>
               (case Unmarshal j of
                  (v, Some e) \<Rightarrow> (0, Some e)
                | (v, None) \<Rightarrow> (v, None))))"

section \<open>The per-task executor of \<open>WorkerPool.Start\<close>\<close>

datatype level = Error | Warning | Success

text \<open>
  What a task does that can be observed from outside, in order: a probe with the
  result of \<open>getRcloneCacheUsage\<close>, a sleep (in seconds), a log line,
  \<open>GlobalMonitor.UpdateActivity\<close>, a call of the on-failure hook, \<open>os.Remove\<close>.
\<close>

datatype event =
    EvProbe "int \<times> error option"
  | EvSleep nat
  | EvLog level
  | EvActivity
  | EvOnFailure error
  | EvRemove string

fun prepend :: "event list \<Rightarrow> event list \<times> 'a \<Rightarrow> event list \<times> 'a" where
  "prepend es (tr, r) = (es @ tr, r)"

text \<open>
  The backpressure gate runs against the probes the endpoint will answer, in order.
  It returns its events and \<open>Some\<close> of the probes left over when it lets the task
  through; \<open>None\<close> is the gate still blocked when the given probes are used up.
  \<open>waitLoop\<close> is the inner loop (lines 130 to 141), \<open>gate\<close> the outer one.
\<close>

fun waitLoop :: "probe list \<Rightarrow> event list \<times> probe list option" where
  "waitLoop [] = ([EvSleep 10, EvActivity], None)"
| "waitLoop (p # ps) =
     (case getRcloneCacheUsage p of
        (newUsage, None) \<Rightarrow>
          if newUsage < RcloneResumeThreshold
          then ([EvSleep 10, EvActivity, EvProbe (newUsage, None), EvLog Success], Some ps)
          else prepend [EvSleep 10, EvActivity, EvProbe (newUsage, None)] (waitLoop ps)
      | (newUsage, Some e) \<Rightarrow>
          prepend [EvSleep 10, EvActivity, EvProbe (newUsage, Some e)] (waitLoop ps))"

fun gate :: "probe list \<Rightarrow> event list \<times> probe list option" where
  "gate [] = ([], None)"
| "gate (p # ps) =
     (case getRcloneCacheUsage p of
        (usage, Some e) \<Rightarrow>
          prepend [EvProbe (usage, Some e), EvLog Error, EvSleep 10, EvActivity] (gate ps)
      | (usage, None) \<Rightarrow>
          if usage > RclonePauseThreshold
          then prepend [EvProbe (usage, None), EvLog Warning] (waitLoop ps)
          else ([EvProbe (usage, None)], Some ps))"

text \<open>
  Relocation (lines 151 to 175): make the directory, open the staging file, create the
  final file, copy, and remove the staging file when the copy returned no error. A
  failing copy leaves the first \<open>copied\<close> bytes in the final file.
\<close>

definition relocate :: "nat \<Rightarrow> MultiThreadDownloader \<Rightarrow> world \<Rightarrow> event list \<times> world" where
  "relocate copied t w =
     (case fsErr w (MkdirAll (FinalPath t)) of
        Some e \<Rightarrow> ([EvLog Error], w)
      | None \<Rightarrow>
          (case (if fsErr w (OpenRd (FullPath t)) = None then files w (FullPath t) else None) of
             None \<Rightarrow> ([EvLog Error], w)
           | Some content \<Rightarrow>
               (case fsErr w (CreateOp (FinalPath t)) of
                  Some e \<Rightarrow> ([EvLog Error], w)
                | None \<Rightarrow>
                    (case fsErr w (CopyOp (FullPath t) (FinalPath t)) of
                       Some e \<Rightarrow>
                         ([EvLog Error],
                          w\<lparr>files := (files w)(FinalPath t \<mapsto> take copied content)\<rparr>)
                     | None \<Rightarrow>
                         ([EvRemove (FullPath t)],
                          w\<lparr>files := ((files w)(FinalPath t \<mapsto> content))(FullPath t := None)\<rparr>)))))"

text \<open>
  How the goroutine of a task ends: \<open>Done\<close> when it ran to its end (the deferred
  function then decrements \<open>Count\<close>), \<open>Blocked\<close> when it is still inside the gate after
  the given probes, \<open>Crashed\<close> when the download panicked.
\<close>

datatype taskEnd = Done | Blocked | Crashed

definition afterDownload ::
  "nat \<Rightarrow> MultiThreadDownloader \<Rightarrow> probe list \<Rightarrow> world \<Rightarrow> event list \<times> taskEnd \<times> world" where
  "afterDownload copied t probes w =
     (if FinalPath t \<noteq> [] \<and> FinalPath t \<noteq> FullPath t
      then (case gate probes of
              (tr, None) \<Rightarrow> (tr, Blocked, w)
            | (tr, Some rest) \<Rightarrow>
                (case relocate copied t w of
                   (tr', w') \<Rightarrow> (tr @ tr' @ [EvActivity, EvLog Success], Done, w')))
      else ([EvActivity, EvLog Success], Done, w))"

text \<open>
  The body of the goroutine of a task (lines 94 to 183): the download; on an error the
  log line, the removal of the partial staging file, and the on-failure hook when it is
  set; otherwise the gate and the relocation. \<open>t1\<close> is the task as \<open>Download\<close> leaves
  it. The number \<open>copied\<close> is how many bytes a failing copy gets through.
\<close>

definition runTask ::
  "nat \<Rightarrow> MultiThreadDownloader \<Rightarrow> probe list \<Rightarrow> world \<Rightarrow> (event list \<times> taskEnd \<times> world) option" where
  "runTask copied t probes w =
     (case Download t w of
        None \<Rightarrow> None
      | Some (Some err, t1, w1) \<Rightarrow>
          if isPanic (Some err) then Some ([EvActivity], Crashed, w1)
          else Some ([EvActivity, EvLog Error, EvRemove (FullPath t1), EvActivity]
                       @ (if OnFailure t1 then [EvOnFailure err] else []),
                     Done, w1\<lparr>files := (files w1)(FullPath t1 := None)\<rparr>)
      | Some (None, t1, w1) \<Rightarrow>
          (case afterDownload copied t1 probes w1 of
             (tr, e, w2) \<Rightarrow> Some (EvActivity # tr, e, w2)))"

section \<open>Admission control of \<open>WorkerPool.Start\<close>\<close>

text \<open>
  The state of the pool: the fields \<open>Limit\<close> and \<open>Count\<close>, the channel \<open>TaskQueue\<close>,
  the counter of the embedded wait group, the task the dispatcher has received and not
  yet admitted, the goroutines launched that have not yet executed \<open>wp.Count++\<close>, and
  those between \<open>wp.Count++\<close> and the deferred \<open>wp.Count--\<close>. Tasks are numbered.
\<close>

record WorkerPool =
  Limit :: int
  Count :: int
  TaskQueue :: "nat list"
  waitGroup :: int
  received :: "nat option"
  launched :: "nat list"
  running :: "nat list"

definition NewWorkerPool :: "int \<Rightarrow> WorkerPool" where
  "NewWorkerPool WorkerCount =
     \<lparr>Limit = WorkerCount, Count = 0, TaskQueue = [], waitGroup = 0,
      received = None, launched = [], running = []\<rparr>"

text \<open>
  The atomic steps. A caller sends a task on the channel, whose capacity is \<open>Limit\<close>
  (\<open>enqueue\<close>), or hands it to the waiting dispatcher (\<open>handoff\<close>); the dispatcher
  receives a task (\<open>receive\<close>); under the lock it finds \<open>Count < Limit\<close>, adds one to
  the wait group and launches the goroutine (\<open>admit\<close>); the goroutine takes the lock and
  increments \<open>Count\<close> (\<open>start\<close>); its deferred function takes the lock, decrements
  \<open>Count\<close> and calls \<open>Done\<close> (\<open>finish\<close>).
\<close>

inductive step :: "WorkerPool \<Rightarrow> WorkerPool \<Rightarrow> bool" where
  enqueue: "int (length (TaskQueue s)) < Limit s
     \<Longrightarrow> step s (s\<lparr>TaskQueue := TaskQueue s @ [t]\<rparr>)"
| handoff: "received s = None \<Longrightarrow> TaskQueue s = []
     \<Longrightarrow> step s (s\<lparr>received := Some t\<rparr>)"
| receive: "received s = None \<Longrightarrow> TaskQueue s = t # q
     \<Longrightarrow> step s (s\<lparr>received := Some t, TaskQueue := q\<rparr>)"
| admit: "received s = Some t \<Longrightarrow> Count s < Limit s
     \<Longrightarrow> step s (s\<lparr>received := None, waitGroup := waitGroup s + 1,
                     launched := launched s @ [t]\<rparr>)"
| start: "t \<in> set (launched s)
     \<Longrightarrow> step s (s\<lparr>launched := remove1 t (launched s), Count := Count s + 1,
                     running := running s @ [t]\<rparr>)"
| finish: "t \<in> set (running s)
     \<Longrightarrow> step s (s\<lparr>running := remove1 t (running s), Count := Count s - 1,
                     waitGroup := waitGroup s - 1\<rparr>)"

inductive reachable :: "int \<Rightarrow> WorkerPool \<Rightarrow> bool" where
  reach_init: "reachable n (NewWorkerPool n)"
| reach_step: "reachable n s \<Longrightarrow> step s s' \<Longrightarrow> reachable n s'"

section \<open>Specification predicates and sample inputs\<close>

text \<open>
  \<open>contiguous s blocks e\<close>: the blocks, in order, are non-empty inclusive ranges, the
  first begins at \<open>s\<close>, each begins right after the end of the one before, and the last
  ends at \<open>e - 1\<close>.
\<close>

fun contiguous :: "int \<Rightarrow> BlockMetaData list \<Rightarrow> int \<Rightarrow> bool" where
  "contiguous s [] e = (s = e)"
| "contiguous s (b # bs) e =
     (BeginOffset b = s \<and> s \<le> EndOffset b \<and> contiguous (EndOffset b + 1) bs e)"

definition blockRange :: "BlockMetaData \<Rightarrow> int \<times> int" where
  "blockRange b = (BeginOffset b, EndOffset b)"

text \<open>
  \<open>cleanEOF b\<close>: the bytes that the body \<open>b\<close> delivers up to its \<open>io.EOF\<close>, when no
  read error comes before.
\<close>

fun cleanEOF :: "body \<Rightarrow> string option" where
  "cleanEOF [] = Some []"
| "cleanEOF ((d, EOF) # rest) = Some d"
| "cleanEOF ((d, ReadFail e) # rest) = None"
| "cleanEOF ((d, NoErr) # rest) = map_option ((@) d) (cleanEOF rest)"

text \<open>
  \<open>delivered b\<close>: the bytes that the body \<open>b\<close> delivers until it ends, and the read
  error that ended it, if any.
\<close>

fun delivered :: "body \<Rightarrow> string \<times> error option" where
  "delivered [] = ([], None)"
| "delivered ((d, EOF) # rest) = (d, None)"
| "delivered ((d, ReadFail e) # rest) = (d, Some (ErrRead e))"
| "delivered ((d, NoErr) # rest) = (case delivered rest of (ds, r) \<Rightarrow> (d @ ds, r))"

text \<open>The bytes handed to a writer so far: those written and those still buffered.\<close>

definition pending :: "Writer \<Rightarrow> string" where
  "pending b = written b @ buffered b"

text \<open>A world in which no file-system operation fails and every URL is accepted.\<close>

definition faultFree :: "world \<Rightarrow> bool" where
  "faultFree w = ((\<forall>op. fsErr w op = None) \<and> (\<forall>u. urlErr w u = None))"

text \<open>The ranges of the blocks that a run of \<open>initDownload\<close> planned.\<close>

definition plannedRanges ::
  "(error option \<times> MultiThreadDownloader \<times> world) option \<Rightarrow> (int \<times> int) list option" where
  "plannedRanges r =
     (case r of
        Some (None, m, w) \<Rightarrow> Some (map blockRange (Blocks m))
      | _ \<Rightarrow> None)"

text \<open>A task with the given thread count, and a world without faults that will answer
  the successive requests as listed.\<close>

definition sampleTask :: "int \<Rightarrow> MultiThreadDownloader" where
  "sampleTask n =
     \<lparr>Url = ''http://host/a.mp3'', SavePath = ''/tmp/asmr'', FileName = ''a.mp3'',
      FullPath = ''/tmp/asmr/a.mp3'', FinalPath = ''/mnt/dl/a.mp3'', Headers = [],
      Blocks = [], ThreadCount = n, OnFailure = True, RetryCount = 0\<rparr>"

definition sampleWorld :: "(error + response) list \<Rightarrow> world" where
  "sampleWorld rs =
     \<lparr>files = Map.empty, net = rs, sent = [], fsErr = (\<lambda>op. None), urlErr = (\<lambda>u. None)\<rparr>"

definition reply :: "int \<Rightarrow> int \<Rightarrow> body \<Rightarrow> error + response" where
  "reply status len b = Inr \<lparr>StatusCode = status, ContentLength = len, Body = b\<rparr>"

text \<open>
  Probes: a response with the given status and JSON body, and the response of a healthy
  endpoint that reports \<open>n\<close> bytes used.
\<close>

definition okProbe :: "int \<Rightarrow> json \<Rightarrow> probe" where
  "okProbe st j = Inr \<lparr>probeStatus = st, probeBody = Inr (Some j)\<rparr>"

definition usageProbe :: "int \<Rightarrow> probe" where
  "usageProbe n = okProbe 200 (JObject [(''diskCache'', JObject [(''bytesUsed'', JInt n)])])"

definition GiB :: int where
  "GiB = 1024 * 1024 * 1024"






text \<open>
  A probe fails when \<open>getRcloneCacheUsage\<close> returns an error for it; it keeps the wait
  loop waiting when it fails or gives a sample that is not below the resume threshold.
  \<open>loggedRetry\<close> is what the outer loop of the gate does with a failing probe,
  \<open>waitRound\<close> what the inner loop does with a probe that keeps it waiting.
\<close>

definition probeFails :: "probe \<Rightarrow> bool" where
  "probeFails p = (snd (getRcloneCacheUsage p) \<noteq> None)"

definition keepsWaiting :: "probe \<Rightarrow> bool" where
  "keepsWaiting p =
     (case getRcloneCacheUsage p of
        (v, None) \<Rightarrow> \<not> v < RcloneResumeThreshold
      | (v, Some e) \<Rightarrow> True)"

definition loggedRetry :: "probe \<Rightarrow> event list" where
  "loggedRetry p = [EvProbe (getRcloneCacheUsage p), EvLog Error, EvSleep 10, EvActivity]"

definition waitRound :: "probe \<Rightarrow> event list" where
  "waitRound p = [EvSleep 10, EvActivity, EvProbe (getRcloneCacheUsage p)]"

text \<open>
  \<open>copyCompletes t w\<close>: in the world \<open>w\<close> every step of the relocation of \<open>t\<close> succeeds,
  up to and including the copy.
\<close>

definition copyCompletes :: "MultiThreadDownloader \<Rightarrow> world \<Rightarrow> bool" where
  "copyCompletes t w =
     (fsErr w (MkdirAll (FinalPath t)) = None \<and> fsErr w (OpenRd (FullPath t)) = None
      \<and> files w (FullPath t) \<noteq> None \<and> fsErr w (CreateOp (FinalPath t)) = None
      \<and> fsErr w (CopyOp (FullPath t) (FinalPath t)) = None)"

text \<open>
  What the relocation of \<open>t\<close> in the world \<open>w\<close> adds to the events of the task (the
  removal of the staging file when every step up to the copy succeeds, an error log
  line otherwise, then the closing lines of the task), and the world it leaves.
\<close>

definition relocationEvents :: "MultiThreadDownloader \<Rightarrow> world \<Rightarrow> event list" where
  "relocationEvents t w =
     (if copyCompletes t w then [EvRemove (FullPath t)] else [EvLog Error])
     @ [EvActivity, EvLog Success]"

definition relocated :: "nat \<Rightarrow> MultiThreadDownloader \<Rightarrow> world \<Rightarrow> world" where
  "relocated copied t w = snd (relocate copied t w)"

text \<open>The events and the final world of a run of a task.\<close>

definition endOf :: "(event list \<times> taskEnd \<times> world) option \<Rightarrow> taskEnd option" where
  "endOf r = (case r of Some (tr, e, w) \<Rightarrow> Some e | None \<Rightarrow> None)"

definition traceOf :: "(event list \<times> taskEnd \<times> world) option \<Rightarrow> event list" where
  "traceOf r = (case r of Some (tr, e, w) \<Rightarrow> tr | None \<Rightarrow> [])"

definition filesOf :: "(event list \<times> taskEnd \<times> world) option \<Rightarrow> string \<rightharpoonup> string" where
  "filesOf r = (case r of Some (tr, e, w) \<Rightarrow> files w | None \<Rightarrow> Map.empty)"

text \<open>The world \<open>w\<close> with one more failing file-system operation.\<close>

definition withFault :: "fsop \<Rightarrow> world \<Rightarrow> world" where
  "withFault op w = w\<lparr>fsErr := (fsErr w)(op \<mapsto> ErrFs ''input/output error'')\<rparr>"

section \<open>Arithmetic of 64-bit offsets\<close>

lemma wrap64_id: "in_int64 x \<Longrightarrow> wrap64 x = x"
  by (simp add: wrap64_def in_int64_def)

lemma go_div_pos:
  assumes "0 < a" "a < 2 ^ 63" "0 < b"
  shows "go_div a b = a div b"
proof -
  have "0 \<le> a div b" using assms by (simp add: pos_imp_zdiv_nonneg_iff)
  moreover have "a div b \<le> a" using assms by (simp add: int_div_le_self)
  ultimately have "in_int64 (a div b)" using assms by (simp add: in_int64_def)
  moreover have "sgn a * sgn b * (\<bar>a\<bar> div \<bar>b\<bar>) = a div b"
    using assms by simp
  ultimately show ?thesis by (simp add: go_div_def wrap64_id)
qed

lemma blockSize_large:
  assumes "1024 * 1024 < cl" "cl < 2 ^ 62" "2 \<le> tc" "11 * tc \<le> cl"
  shows "blockSize cl tc = cl div tc - 10" and "0 < blockSize cl tc" and "blockSize cl tc < cl"
proof -
  have d: "go_div cl tc = cl div tc" using assms by (intro go_div_pos) auto
  have "11 * tc div tc \<le> cl div tc" using assms by (intro zdiv_mono1) auto
  then have lo: "11 \<le> cl div tc" using assms by simp
  have hi: "cl div tc \<le> cl" using assms by (simp add: int_div_le_self)
  have "in_int64 (cl div tc - 10)" using lo hi assms by (simp add: in_int64_def)
  then show e: "blockSize cl tc = cl div tc - 10"
    using assms d by (simp add: blockSize_def wrap64_id)
  show "0 < blockSize cl tc" using e lo by simp
  show "blockSize cl tc < cl" using e hi by simp
qed

section \<open>The partition loop\<close>

text \<open>With a block size of zero the loop condition stays true: the loop has no result.\<close>

lemma partitionBlocks_stuck_aux:
  assumes "partitionBlocks tmp bs cl acc = Some y"
  shows "\<not> (bs = 0 \<and> in_int64 tmp \<and> tmp < cl)"
proof (rule partitionBlocks.raw_induct
    [where P = "\<lambda>tmp bs cl acc y. \<not> (bs = 0 \<and> in_int64 tmp \<and> tmp < cl)", OF _ assms])
  fix f :: "int \<Rightarrow> int \<Rightarrow> int \<Rightarrow> BlockMetaData list \<Rightarrow> BlockMetaData list option"
  fix t b c :: int and a y' :: "BlockMetaData list"
  assume IH: "\<And>t b c a y. f t b c a = Some y \<Longrightarrow> \<not> (b = 0 \<and> in_int64 t \<and> t < c)"
  assume eq: "(if wrap64 (t + b) < c
      then f (wrap64 (t + b)) b c (a @ [mkBlock t (wrap64 (wrap64 (t + b) - 1))])
      else Some (a @ [mkBlock t (wrap64 (c - 1))])) = Some y'"
  show "\<not> (b = 0 \<and> in_int64 t \<and> t < c)"
  proof
    assume h: "b = 0 \<and> in_int64 t \<and> t < c"
    then have w: "wrap64 (t + b) = t" by (simp add: wrap64_id)
    from eq h have "f t b c (a @ [mkBlock t (wrap64 (t - 1))]) = Some y'"
      unfolding w by simp
    from IH[OF this] h show False by blast
  qed
qed

lemma partitionBlocks_stuck: "0 < cl \<Longrightarrow> partitionBlocks 0 0 cl acc = None"
  using partitionBlocks_stuck_aux [of 0 0 cl acc]
  by (cases "partitionBlocks 0 0 cl acc") (auto simp: in_int64_def)

text \<open>
  With a positive block size and offsets that stay inside \<open>int64\<close> the loop returns, and
  what it appends is a contiguous chain of non-empty blocks from \<open>tmp\<close> to the content
  length.
\<close>

lemma partitionBlocks_returns:
  assumes "0 < bs" "0 \<le> tmp" "tmp < cl" "cl + bs < 2 ^ 63"
  shows "\<exists>blocks. partitionBlocks tmp bs cl acc = Some (acc @ blocks) \<and> blocks \<noteq> []
           \<and> contiguous tmp blocks cl \<and> EndOffset (last blocks) = cl - 1"
  using assms
proof (induction "nat (cl - tmp)" arbitrary: tmp acc rule: less_induct)
  case less
  have r1: "in_int64 (tmp + bs)" using less.prems by (simp add: in_int64_def)
  have r2: "in_int64 (tmp + bs - 1)" using less.prems by (simp add: in_int64_def)
  have r3: "in_int64 (cl - 1)" using less.prems by (simp add: in_int64_def)
  show ?case
  proof (cases "tmp + bs < cl")
    case True
    let ?b = "mkBlock tmp (tmp + bs - 1)"
    have "nat (cl - (tmp + bs)) < nat (cl - tmp)" using less.prems True by simp
    from less.hyps[OF this, of "acc @ [?b]"] less.prems True
    obtain blocks where b:
      "partitionBlocks (tmp + bs) bs cl (acc @ [?b]) = Some ((acc @ [?b]) @ blocks)"
      "blocks \<noteq> []" "contiguous (tmp + bs) blocks cl" "EndOffset (last blocks) = cl - 1"
      by auto
    have "partitionBlocks tmp bs cl acc = Some (acc @ (?b # blocks))"
      using True b(1) by (subst partitionBlocks.simps) (simp add: wrap64_id r1 r2)
    moreover have "contiguous tmp (?b # blocks) cl"
      using b(3) less.prems by (simp add: mkBlock_def)
    moreover have "EndOffset (last (?b # blocks)) = cl - 1" using b(2,4) by simp
    ultimately show ?thesis by blast
  next
    case False
    let ?b = "mkBlock tmp (cl - 1)"
    have "partitionBlocks tmp bs cl acc = Some (acc @ [?b])"
      using False by (subst partitionBlocks.simps) (simp add: wrap64_id r1 r3)
    moreover have "contiguous tmp [?b] cl" using less.prems by (simp add: mkBlock_def)
    moreover have "EndOffset (last [?b]) = cl - 1" by (simp add: mkBlock_def)
    ultimately show ?thesis by blast
  qed
qed

text \<open>A contiguous chain covers every offset of its range by exactly one block.\<close>

lemma contiguous_le: "contiguous s bs e \<Longrightarrow> s \<le> e"
  by (induction bs arbitrary: s) force+

lemma contiguous_before:
  "contiguous s bs e \<Longrightarrow> i < length bs \<Longrightarrow> s \<le> BeginOffset (bs ! i) \<and> EndOffset (bs ! i) < e"
proof (induction bs arbitrary: s i)
  case Nil
  then show ?case by simp
next
  case (Cons b bs)
  show ?case
  proof (cases i)
    case 0
    with Cons.prems contiguous_le[of "EndOffset b + 1" bs e] show ?thesis by simp
  next
    case (Suc j)
    with Cons.prems Cons.IH[of "EndOffset b + 1" j] show ?thesis by simp
  qed
qed

lemma contiguous_cover:
  "contiguous s bs e \<Longrightarrow> s \<le> x \<Longrightarrow> x < e \<Longrightarrow>
     \<exists>!i. i < length bs \<and> BeginOffset (bs ! i) \<le> x \<and> x \<le> EndOffset (bs ! i)"
proof (induction bs arbitrary: s)
  case Nil
  then show ?case by simp
next
  case (Cons b bs)
  show ?case
  proof (cases "x \<le> EndOffset b")
    case True
    have "\<forall>j<length bs. x < BeginOffset (bs ! j)"
      using contiguous_before[of "EndOffset b + 1" bs e] Cons.prems True by fastforce
    then have u: "\<And>i. i < length (b # bs) \<and> BeginOffset ((b # bs) ! i) \<le> x
        \<and> x \<le> EndOffset ((b # bs) ! i) \<Longrightarrow> i = 0"
      by (case_tac i) auto
    show ?thesis
      by (rule ex1I[of _ 0]) (use Cons.prems True u in auto)
  next
    case False
    with Cons.prems Cons.IH[of "EndOffset b + 1"]
    obtain j where j: "j < length bs" "BeginOffset (bs ! j) \<le> x" "x \<le> EndOffset (bs ! j)"
      and uj: "\<And>k. k < length bs \<and> BeginOffset (bs ! k) \<le> x \<and> x \<le> EndOffset (bs ! k)
                 \<Longrightarrow> k = j"
      by auto
    show ?thesis
    proof (rule ex1I[of _ "Suc j"])
      show "Suc j < length (b # bs) \<and> BeginOffset ((b # bs) ! Suc j) \<le> x
          \<and> x \<le> EndOffset ((b # bs) ! Suc j)"
        using j by simp
    next
      fix i
      assume a: "i < length (b # bs) \<and> BeginOffset ((b # bs) ! i) \<le> x
          \<and> x \<le> EndOffset ((b # bs) ! i)"
      show "i = Suc j"
      proof (cases i)
        case 0
        with a False show ?thesis by simp
      next
        case (Suc k)
        with a uj[of k] show ?thesis by simp
      qed
    qed
  qed
qed

section \<open>\<open>initDownload\<close> on a 206 response\<close>

lemma initDownload_206:
  assumes "urlErr w (Url m) = None" and "net w = Inr resp # rest"
    and "StatusCode resp = 206"
    and "ThreadCount m \<noteq> 0"
    and "blockSize (ContentLength resp) (ThreadCount m) \<noteq> ContentLength resp"
  shows "initDownload m w =
     (case partitionBlocks 0 (blockSize (ContentLength resp) (ThreadCount m))
             (ContentLength resp) (Blocks m) of
        None \<Rightarrow> None
      | Some blocks \<Rightarrow>
          Some (None, m\<lparr>Blocks := blocks\<rparr>, w\<lparr>net := rest, sent := sent w @ [probeRequest m]\<rparr>))"
  using assms by (simp add: initDownload_def client_Do_def Let_def)

text \<open>
  Where the quotient of content length and thread count is at least 11, the block size is
  positive and the blocks that \<open>initDownload\<close> plans partition the content: they are
  contiguous, disjoint, start at 0 and end at \<open>contentLength - 1\<close>.
\<close>

lemma initDownload_blocks_partition:
  assumes "urlErr w (Url m) = None" and "net w = Inr resp # rest"
    and "StatusCode resp = 206" and "Blocks m = []"
    and "1024 * 1024 < ContentLength resp" and "ContentLength resp < 2 ^ 62"
    and "2 \<le> ThreadCount m" and "11 * ThreadCount m \<le> ContentLength resp"
  shows "\<exists>blocks w'. initDownload m w = Some (None, m\<lparr>Blocks := blocks\<rparr>, w')
           \<and> blocks \<noteq> [] \<and> contiguous 0 blocks (ContentLength resp)
           \<and> EndOffset (last blocks) = ContentLength resp - 1"
proof -
  let ?cl = "ContentLength resp" and ?tc = "ThreadCount m"
  note b = blockSize_large [OF assms(5-8)]
  have "?cl + blockSize ?cl ?tc < 2 ^ 63" using b(3) assms(6) by simp
  from partitionBlocks_returns [OF b(2) _ _ this, of 0 "[]"] assms(5)
  obtain blocks where p: "partitionBlocks 0 (blockSize ?cl ?tc) ?cl [] = Some blocks"
    "blocks \<noteq> []" "contiguous 0 blocks ?cl" "EndOffset (last blocks) = ?cl - 1"
    by auto
  have "initDownload m w =
      Some (None, m\<lparr>Blocks := blocks\<rparr>, w\<lparr>net := rest, sent := sent w @ [probeRequest m]\<rparr>)"
    using initDownload_206 [OF assms(1-3)] assms(4,7) b(3) p(1) by simp
  with p show ?thesis by blast
qed

lemma blockSize_zero: "blockSize 1048577 104857 = 0"
  by (simp add: blockSize_def go_div_def wrap64_def)

text \<open>
  Claim C1: for every content length above 1 MiB and every thread count of at least 2,
  \<open>initDownload\<close> on a 206 response takes the block size
  \<open>contentLength / threadCount - 10\<close> and produces blocks that partition
  \<open>[0, contentLength)\<close>. The code has no guard for a block size that is not positive.
  At the content length 1048577 and the thread count 104857 the block size is 0, the
  loop \<open>for tmp+blockSize < contentLength\<close> never advances, and \<open>initDownload\<close> does not
  return: no block list is produced.
\<close>

theorem initDownload_zero_blockSize_never_returns:
  "initDownload (sampleTask 104857) (sampleWorld [reply 206 1048577 []]) = None"
proof -
  have "partitionBlocks 0 0 1048577 (Blocks (sampleTask 104857)) = None"
    by (rule partitionBlocks_stuck) simp
  then show ?thesis
    using initDownload_206 [of "sampleWorld [reply 206 1048577 []]" "sampleTask 104857"
        "\<lparr>StatusCode = 206, ContentLength = 1048577, Body = []\<rparr>" "[]"]
    by (simp add: blockSize_zero sampleWorld_def sampleTask_def reply_def)
qed

text \<open>
  Claim C2, as the code has it: for the content length 10,000,000 and the thread count
  4 the block size is 2,499,990 and \<open>initDownload\<close> plans exactly five blocks,
  \<open>[0,2499989]\<close>, \<open>[2499990,4999979]\<close>, \<open>[4999980,7499969]\<close>, \<open>[7499970,9999959]\<close> and
  \<open>[9999960,9999999]\<close>: four blocks of the block size and a fifth with the 40 bytes
  that remain.
\<close>

theorem initDownload_scenarioA_five_blocks:
  assumes "ThreadCount m = 4" and "Blocks m = []" and "urlErr w (Url m) = None"
    and "net w = Inr resp # rest" and "StatusCode resp = 206"
    and "ContentLength resp = 10000000"
  shows "blockSize 10000000 4 = 2499990 \<and>
         plannedRanges (initDownload m w) =
           Some [(0, 2499989), (2499990, 4999979), (4999980, 7499969),
                 (7499970, 9999959), (9999960, 9999999)]"
proof -
  have bs: "blockSize 10000000 4 = 2499990"
    by (simp add: blockSize_def go_div_def wrap64_def)
  have p: "partitionBlocks 0 2499990 10000000 [] =
      Some [mkBlock 0 2499989, mkBlock 2499990 4999979, mkBlock 4999980 7499969,
            mkBlock 7499970 9999959, mkBlock 9999960 9999999]"
    by (simp add: partitionBlocks.simps wrap64_def)
  show ?thesis
    using assms
    by (simp add: bs p initDownload_def client_Do_def plannedRanges_def blockRange_def mkBlock_def)
qed

theorem initDownload_scenarioA_five_blocks_witness:
  "plannedRanges (initDownload (sampleTask 4) (sampleWorld [reply 206 10000000 []])) =
           Some [(0, 2499989), (2499990, 4999979), (4999980, 7499969),
                 (7499970, 9999959), (9999960, 9999999)]"
  using initDownload_scenarioA_five_blocks
    [of "sampleTask 4" "sampleWorld [reply 206 10000000 []]"
        "\<lparr>StatusCode = 206, ContentLength = 10000000, Body = []\<rparr>" "[]"]
  by (simp add: sampleTask_def sampleWorld_def reply_def)

text \<open>
  Claim C2 as stated (four blocks, the fourth being \<open>[7499970,9999999]\<close>) does not hold
  of the run on the sample task.
\<close>

theorem initDownload_scenarioA_counterexample:
  "plannedRanges (initDownload (sampleTask 4) (sampleWorld [reply 206 10000000 []])) \<noteq>
           Some [(0, 2499989), (2499990, 4999979), (4999980, 7499969), (7499970, 9999999)]"
proof -
  have p: "partitionBlocks 0 2499990 10000000 [] =
      Some [mkBlock 0 2499989, mkBlock 2499990 4999979, mkBlock 4999980 7499969,
            mkBlock 7499970 9999959, mkBlock 9999960 9999999]"
    by (simp add: partitionBlocks.simps wrap64_def)
  have bs: "blockSize 10000000 4 = 2499990"
    by (simp add: blockSize_def go_div_def wrap64_def)
  show ?thesis
    using initDownload_206 [of "sampleWorld [reply 206 10000000 []]" "sampleTask 4"
        "\<lparr>StatusCode = 206, ContentLength = 10000000, Body = []\<rparr>" "[]"]
    by (simp add: p bs plannedRanges_def sampleWorld_def sampleTask_def reply_def)
qed

section \<open>Short reads in \<open>downloadBlocks\<close>\<close>

text \<open>Without a write fault the writer loses nothing and keeps the order.\<close>

lemma bufWrite_ok:
  assumes "stickyErr b = None"
  shows "\<exists>b'. bufWrite None p b = (None, b') \<and> pending b' = pending b @ p
           \<and> stickyErr b' = None"
  using assms by (auto simp: bufWrite_def pending_def Let_def)

lemma bufFlush_ok: "stickyErr b = None \<Longrightarrow> written (bufFlush None b) = pending b"
  by (simp add: bufFlush_def pending_def)

lemma pending_new: "pending NewWriterSize = [] \<and> stickyErr NewWriterSize = None"
  by (simp add: pending_def NewWriterSize_def)

lemma writeChunk_short:
  assumes "BeginOffset blk + int (length d) \<le> EndOffset blk"
    and "0 \<le> BeginOffset blk" and "EndOffset blk < 2 ^ 63 - 1"
    and "stickyErr b = None"
  shows "\<exists>blk' b'. writeChunk None d blk b = (None, blk', b')
           \<and> pending b' = pending b @ d \<and> stickyErr b' = None
           \<and> BeginOffset blk' = BeginOffset blk + int (length d)
           \<and> EndOffset blk' = EndOffset blk"
proof (cases "d = []")
  case True
  then show ?thesis using assms(4) by (simp add: writeChunk_def)
next
  case False
  have e1: "wrap64 (EndOffset blk + 1) = EndOffset blk + 1"
    using assms by (intro wrap64_id) (simp add: in_int64_def)
  have e2: "wrap64 (EndOffset blk + 1 - BeginOffset blk) = EndOffset blk + 1 - BeginOffset blk"
    using assms by (intro wrap64_id) (simp add: in_int64_def)
  have e3: "wrap64 (BeginOffset blk + int (length d)) = BeginOffset blk + int (length d)"
    using assms by (intro wrap64_id) (simp add: in_int64_def)
  from bufWrite_ok [OF assms(4), of d]
  obtain b' where w: "bufWrite None d b = (None, b')" "pending b' = pending b @ d"
    "stickyErr b' = None" by blast
  show ?thesis
    using False assms(1-3) w by (simp add: writeChunk_def e1 e2 e3 Let_def)
qed

lemma readLoop_short:
  assumes "cleanEOF body = Some data"
    and "BeginOffset blk + int (length data) \<le> EndOffset blk"
    and "0 \<le> BeginOffset blk" and "EndOffset blk < 2 ^ 63 - 1"
    and "stickyErr b = None"
  shows "\<exists>blk' b'. readLoop None body blk b = (None, blk', b')
           \<and> pending b' = pending b @ data \<and> stickyErr b' = None
           \<and> BeginOffset blk' = BeginOffset blk + int (length data)
           \<and> EndOffset blk' = EndOffset blk"
  using assms
proof (induction body arbitrary: blk b data)
  case Nil
  then show ?case by simp
next
  case (Cons c body)
  obtain d st where c: "c = (d, st)" by (cases c)
  show ?case
  proof (cases st)
    case EOF
    with Cons.prems c have dd: "data = d" by simp
    from writeChunk_short [of blk d b] Cons.prems dd
    obtain blk' b' where "writeChunk None d blk b = (None, blk', b')"
      "pending b' = pending b @ d" "stickyErr b' = None"
      "BeginOffset blk' = BeginOffset blk + int (length d)" "EndOffset blk' = EndOffset blk"
      by auto
    then show ?thesis using c EOF dd by simp
  next
    case (ReadFail e)
    with Cons.prems c show ?thesis by simp
  next
    case NoErr
    with Cons.prems c obtain ds where ds: "cleanEOF body = Some ds" "data = d @ ds"
      by auto
    from writeChunk_short [of blk d b] Cons.prems ds
    obtain blk' b' where b': "writeChunk None d blk b = (None, blk', b')"
      "pending b' = pending b @ d" "stickyErr b' = None"
      "BeginOffset blk' = BeginOffset blk + int (length d)" "EndOffset blk' = EndOffset blk"
      by auto
    from Cons.IH [OF ds(1), of blk' b'] Cons.prems ds b'
    obtain blk'' b'' where "readLoop None body blk' b' = (None, blk'', b'')"
      "pending b'' = pending b' @ ds" "stickyErr b'' = None"
      "BeginOffset blk'' = BeginOffset blk' + int (length ds)" "EndOffset blk'' = EndOffset blk'"
      by auto
    then show ?thesis using c NoErr b' ds by simp
  qed
qed

lemma openForBlock_ok:
  assumes "faultFree w"
  shows "\<exists>w1. openForBlock p w = Inr w1 \<and> fsErr w1 = fsErr w \<and> urlErr w1 = urlErr w
           \<and> net w1 = net w \<and> sent w1 = sent w"
  using assms by (cases "files w p") (simp_all add: openForBlock_def faultFree_def)

text \<open>
  Claim C3, as the code has it: when the body of a segment's response reaches \<open>io.EOF\<close>
  while the segment's \<open>BeginOffset\<close> is still at most its \<open>EndOffset\<close> (a short read),
  the read loop leaves through \<open>break\<close> and \<open>downloadBlocks\<close> returns \<open>nil\<close>: the
  shortfall is not reported, and the block is left incomplete with
  \<open>BeginOffset \<le> EndOffset\<close>. Here the response has a 2xx status, its body delivers
  \<open>data\<close> and then ends, and \<open>data\<close> is shorter than the range of the block.
\<close>

theorem downloadBlocks_short_read_returns_nil:
  assumes "faultFree w" and "net w = Inr resp # rest"
    and "200 \<le> StatusCode resp" and "StatusCode resp < 300"
    and "cleanEOF (Body resp) = Some data"
    and "0 \<le> BeginOffset block" and "EndOffset block < 2 ^ 63 - 1"
    and "BeginOffset block + int (length data) \<le> EndOffset block"
  shows "\<exists>block' w'. downloadBlocks m block w = (None, block', w')
           \<and> BeginOffset block' = BeginOffset block + int (length data)
           \<and> EndOffset block' = EndOffset block
           \<and> BeginOffset block' \<le> EndOffset block'"
proof -
  from readLoop_short [OF assms(5) assms(8) assms(6) assms(7), of NewWriterSize] pending_new
  obtain b' wr where b': "readLoop None (Body resp) block NewWriterSize = (None, b', wr)"
    "BeginOffset b' = BeginOffset block + int (length data)" "EndOffset b' = EndOffset block"
    by auto
  obtain w1 where w1: "openForBlock (FullPath m) w = Inr w1" "fsErr w1 = fsErr w"
    "urlErr w1 = urlErr w" "net w1 = net w"
    using openForBlock_ok [OF assms(1)] by blast
  have "downloadBlocks m block w =
      (None, b', flushAt (FullPath m) (BeginOffset block) (written (bufFlush None wr))
         (w1\<lparr>net := rest, sent := sent w1 @ [blockRequest m block]\<rparr>))"
    using assms(1-4,6) w1 b'(1)
    by (simp add: downloadBlocks_def faultFree_def client_Do_def)
  with b' assms(8) show ?thesis by simp
qed

theorem downloadBlocks_short_read_returns_nil_witness:
  "\<exists>block' w'. downloadBlocks (sampleTask 4) (mkBlock 0 9)
        (sampleWorld [reply 206 10 [(''abc'', EOF)]]) = (None, block', w')
     \<and> BeginOffset block' = 3 \<and> EndOffset block' = 9
     \<and> BeginOffset block' \<le> EndOffset block'"
  using downloadBlocks_short_read_returns_nil
    [of "sampleWorld [reply 206 10 [(''abc'', EOF)]]"
        "\<lparr>StatusCode = 206, ContentLength = 10, Body = [(''abc'', EOF)]\<rparr>" "[]" "''abc''"
        "mkBlock 0 9" "sampleTask 4"]
  by (simp add: faultFree_def sampleWorld_def reply_def mkBlock_def)

text \<open>
  Claim C3 as stated (a short read makes \<open>downloadBlocks\<close> return an error) fails for
  the block \<open>[0, 9]\<close> and a body of three bytes: the returned error is \<open>nil\<close> and the
  block stands at \<open>BeginOffset = 3\<close>, \<open>EndOffset = 9\<close>.
\<close>

theorem downloadBlocks_short_read_counterexample:
  "(case downloadBlocks (sampleTask 4) (mkBlock 0 9)
           (sampleWorld [reply 206 10 [(''abc'', EOF)]]) of
      (err, block', w') \<Rightarrow> (err, BeginOffset block', EndOffset block')) = (None, 3, 9)"
  by (simp add: downloadBlocks_def openForBlock_def sampleWorld_def sampleTask_def reply_def
      client_Do_def mkBlock_def writeChunk_def wrap64_def Let_def bufWrite_def Available_def
      bufferSize_def NewWriterSize_def)

section \<open>Status codes on the three download paths\<close>

text \<open>The range probe and the per-segment request reject every status outside 2xx.\<close>

lemma initDownload_rejects_status:
  assumes "urlErr w (Url m) = None" and "net w = Inr resp # rest"
    and "StatusCode resp < 200 \<or> 300 \<le> StatusCode resp"
  shows "initDownload m w =
     Some (Some (ErrStatus (StatusCode resp)), m, w\<lparr>net := rest, sent := sent w @ [probeRequest m]\<rparr>)"
  using assms by (auto simp: initDownload_def client_Do_def)

lemma downloadBlocks_rejects_status:
  assumes "faultFree w" and "net w = Inr resp # rest" and "0 \<le> BeginOffset block"
    and "StatusCode resp < 200 \<or> 300 \<le> StatusCode resp"
  shows "\<exists>w'. downloadBlocks m block w = (Some (ErrStatus (StatusCode resp)), block, w')
           \<and> (files w (FullPath m) \<noteq> None \<longrightarrow> files w' = files w)"
proof -
  obtain w1 where w1: "openForBlock (FullPath m) w = Inr w1" "fsErr w1 = fsErr w"
    "urlErr w1 = urlErr w" "net w1 = net w"
    using openForBlock_ok [OF assms(1)] by blast
  have f: "files w (FullPath m) \<noteq> None \<longrightarrow> w1 = w"
    using w1(1) assms(1) by (auto simp: openForBlock_def faultFree_def)
  show ?thesis
    using assms w1 f by (auto simp: downloadBlocks_def faultFree_def client_Do_def)
qed

text \<open>
  Claim C5: on every download path a status outside 2xx makes the operation return
  an error instead of writing the body and returning success. The single-stream path
  \<open>singleThreadDownload\<close> never looks at the status code. With a thread count of 1 and
  a server that answers 404 with the body \<open>not found\<close>, \<open>Download\<close> returns \<open>nil\<close> and
  the destination file holds the error page.
\<close>

theorem singleThreadDownload_accepts_404:
  "map_option (\<lambda>(err, m, w). (err, files w (FullPath m)))
     (Download (sampleTask 1) (sampleWorld [reply 404 9 [(''not found'', EOF)]]))
   = Some (None, Some ''not found'')"
  by (simp add: Download_def singleThreadDownload_def sampleTask_def sampleWorld_def
      reply_def client_Do_def bufWrite_def bufFlush_def Available_def bufferSize_def
      NewWriterSize_def)

section \<open>The fallback to the single-stream path\<close>

text \<open>
  Without a write fault, what the copy hands to the writer is what the body delivers,
  and its error is the read error that ended the body.
\<close>

lemma copyBuffer_delivered:
  assumes "stickyErr b = None"
  shows "\<exists>b'. copyBuffer None body b = (snd (delivered body), b')
           \<and> pending b' = pending b @ fst (delivered body) \<and> stickyErr b' = None"
  using assms
proof (induction body arbitrary: b)
  case Nil
  then show ?case by simp
next
  case (Cons c body)
  obtain d st where c: "c = (d, st)" by (cases c)
  obtain b1 where b1: "(if d \<noteq> [] then bufWrite None d b else (None, b)) = (None, b1)"
    "pending b1 = pending b @ d" "stickyErr b1 = None"
    using bufWrite_ok [OF Cons.prems, of d] Cons.prems by (cases "d = []") auto
  show ?case
  proof (cases st)
    case NoErr
    from Cons.IH [OF b1(3)] obtain b' where
      "copyBuffer None body b1 = (snd (delivered body), b')"
      "pending b' = pending b1 @ fst (delivered body)" "stickyErr b' = None" by blast
    with c NoErr b1 show ?thesis by (simp add: split_beta)
  next
    case EOF
    with c b1 show ?thesis by simp
  next
    case (ReadFail e)
    with c b1 show ?thesis by simp
  qed
qed

lemma copyBuffer_new:
  "\<exists>b'. copyBuffer None body NewWriterSize = (snd (delivered body), b')
     \<and> written (bufFlush None b') = fst (delivered body)"
proof -
  from copyBuffer_delivered [of NewWriterSize body] pending_new
  obtain b' where "copyBuffer None body NewWriterSize = (snd (delivered body), b')"
    "pending b' = fst (delivered body)" "stickyErr b' = None" by auto
  then show ?thesis by (auto simp: bufFlush_ok)
qed

lemma delivered_clean: "cleanEOF b = Some data \<Longrightarrow> delivered b = (data, None)"
  by (induction b arbitrary: data rule: cleanEOF.induct) auto

lemma blockSize_small: "cl \<le> 1024 * 1024 \<Longrightarrow> blockSize cl tc = cl"
  by (simp add: blockSize_def)

lemma initDownload_streams:
  assumes "faultFree w" and "net w = Inr r1 # rest"
    and "StatusCode r1 = 200 \<or>
         StatusCode r1 = 206 \<and> ThreadCount m \<noteq> 0
           \<and> blockSize (ContentLength r1) (ThreadCount m) = ContentLength r1"
  shows "initDownload m w =
     (case copyStream m (Body r1) (w\<lparr>net := rest, sent := sent w @ [probeRequest m]\<rparr>) of
        (err, w2) \<Rightarrow> Some (err, m, w2))"
  using assms by (auto simp: initDownload_def client_Do_def faultFree_def Let_def)

lemma copyStream_clean:
  assumes "faultFree w" and "cleanEOF b = Some data"
  shows "copyStream m b w =
     (Some ErrUnsupportedMultiThreading, w\<lparr>files := (files w)(FullPath m \<mapsto> data)\<rparr>)"
proof -
  from copyBuffer_new [of b] delivered_clean [OF assms(2)]
  obtain b' where "copyBuffer None b NewWriterSize = (None, b')"
    "written (bufFlush None b') = data" by auto
  with assms(1) show ?thesis by (simp add: copyStream_def faultFree_def)
qed

text \<open>
  Claim C9: on every fallback run (a thread count of at least 2, and a probe answered
  with status 200, or with status 206 and a block size equal to the content length, as
  for a file of at most 1 MiB), the whole body of the probe response is first streamed
  to the destination by \<open>copyStream\<close> inside \<open>initDownload\<close>, which returns
  \<open>ErrUnsupportedMultiThreading\<close>; \<open>Download\<close> then calls \<open>singleThreadDownload\<close>, which
  truncates the destination and downloads the content again with a fresh request (no
  range header), so that the final content of the file is what the second response
  delivered. The first body is taken to arrive whole (\<open>first\<close>, up to its end of
  stream) in a world without file-system faults.
\<close>

theorem fallback_downloads_twice:
  assumes "2 \<le> ThreadCount m" and "faultFree w"
    and "net w = Inr r1 # Inr r2 # rest"
    and "StatusCode r1 = 200 \<or>
         StatusCode r1 = 206 \<and> blockSize (ContentLength r1) (ThreadCount m) = ContentLength r1"
    and "cleanEOF (Body r1) = Some first"
  shows "\<exists>w1 w2.
           initDownload m w = Some (Some ErrUnsupportedMultiThreading, m, w1)
         \<and> files w1 (FullPath m) = Some first
         \<and> sent w1 = sent w @ [probeRequest m]
         \<and> Download m w = Some (snd (delivered (Body r2)), m, w2)
         \<and> singleThreadDownload m w1 = (snd (delivered (Body r2)), w2)
         \<and> files w2 (FullPath m) = Some (fst (delivered (Body r2)))
         \<and> sent w2 = sent w @ [probeRequest m, plainRequest m]"
proof -
  let ?wp = "w\<lparr>net := Inr r2 # rest, sent := sent w @ [probeRequest m]\<rparr>"
  let ?w1 = "?wp\<lparr>files := (files ?wp)(FullPath m \<mapsto> first)\<rparr>"
  have ff: "faultFree ?wp" using assms(2) by (simp add: faultFree_def)
  have i: "initDownload m w = Some (Some ErrUnsupportedMultiThreading, m, ?w1)"
    using initDownload_streams [OF assms(2,3), of m] assms(1,4)
      copyStream_clean [OF ff assms(5), of m]
    by auto
  obtain d e where c: "delivered (Body r2) = (d, e)" by (cases "delivered (Body r2)")
  from copyBuffer_new [of "Body r2"] c
  obtain b2 where cb: "copyBuffer None (Body r2) NewWriterSize = (e, b2)"
    "written (bufFlush None b2) = d" by auto
  let ?w2 = "?w1\<lparr>net := rest, sent := sent w @ [probeRequest m, plainRequest m],
                  files := (files ?w1)(FullPath m \<mapsto> d)\<rparr>"
  have s: "singleThreadDownload m ?w1 = (e, ?w2)"
    using assms(2) cb by (simp add: singleThreadDownload_def faultFree_def client_Do_def)
  have d: "Download m w = Some (e, m, ?w2)"
    using assms(1) i s by (simp add: Download_def)
  show ?thesis
    using i s d c by (intro exI[of _ ?w1] exI[of _ ?w2]) simp
qed

theorem fallback_downloads_twice_witness:
  "(\<exists>w1 w2.
      initDownload (sampleTask 4)
          (sampleWorld [reply 200 5 [(''first'', EOF)], reply 200 6 [(''second'', EOF)]])
        = Some (Some ErrUnsupportedMultiThreading, sampleTask 4, w1)
    \<and> files w1 ''/tmp/asmr/a.mp3'' = Some ''first''
    \<and> Download (sampleTask 4)
          (sampleWorld [reply 200 5 [(''first'', EOF)], reply 200 6 [(''second'', EOF)]])
        = Some (None, sampleTask 4, w2)
    \<and> files w2 ''/tmp/asmr/a.mp3'' = Some ''second'')
   \<and> (\<exists>w1 w2.
      initDownload (sampleTask 4)
          (sampleWorld [reply 206 5 [(''first'', EOF)], reply 200 6 [(''second'', EOF)]])
        = Some (Some ErrUnsupportedMultiThreading, sampleTask 4, w1)
    \<and> files w1 ''/tmp/asmr/a.mp3'' = Some ''first''
    \<and> Download (sampleTask 4)
          (sampleWorld [reply 206 5 [(''first'', EOF)], reply 200 6 [(''second'', EOF)]])
        = Some (None, sampleTask 4, w2)
    \<and> files w2 ''/tmp/asmr/a.mp3'' = Some ''second'')"
proof -
  have t: "(2::int) \<le> ThreadCount (sampleTask 4)" by (simp add: sampleTask_def)
  have f: "\<And>rs. faultFree (sampleWorld rs)" by (simp add: faultFree_def sampleWorld_def)
  have p: "FullPath (sampleTask 4) = ''/tmp/asmr/a.mp3''" by (simp add: sampleTask_def)
  have a: "\<exists>w1 w2.
      initDownload (sampleTask 4)
          (sampleWorld [reply 200 5 [(''first'', EOF)], reply 200 6 [(''second'', EOF)]])
        = Some (Some ErrUnsupportedMultiThreading, sampleTask 4, w1)
    \<and> files w1 ''/tmp/asmr/a.mp3'' = Some ''first''
    \<and> Download (sampleTask 4)
          (sampleWorld [reply 200 5 [(''first'', EOF)], reply 200 6 [(''second'', EOF)]])
        = Some (None, sampleTask 4, w2)
    \<and> files w2 ''/tmp/asmr/a.mp3'' = Some ''second''"
    using fallback_downloads_twice [OF t f, of _
        "\<lparr>StatusCode = 200, ContentLength = 5, Body = [(''first'', EOF)]\<rparr>"
        "\<lparr>StatusCode = 200, ContentLength = 6, Body = [(''second'', EOF)]\<rparr>" "[]" "''first''"]
    by (simp add: p sampleWorld_def reply_def) blast
  have b: "\<exists>w1 w2.
      initDownload (sampleTask 4)
          (sampleWorld [reply 206 5 [(''first'', EOF)], reply 200 6 [(''second'', EOF)]])
        = Some (Some ErrUnsupportedMultiThreading, sampleTask 4, w1)
    \<and> files w1 ''/tmp/asmr/a.mp3'' = Some ''first''
    \<and> Download (sampleTask 4)
          (sampleWorld [reply 206 5 [(''first'', EOF)], reply 200 6 [(''second'', EOF)]])
        = Some (None, sampleTask 4, w2)
    \<and> files w2 ''/tmp/asmr/a.mp3'' = Some ''second''"
    using fallback_downloads_twice [OF t f, of _
        "\<lparr>StatusCode = 206, ContentLength = 5, Body = [(''first'', EOF)]\<rparr>"
        "\<lparr>StatusCode = 200, ContentLength = 6, Body = [(''second'', EOF)]\<rparr>" "[]" "''first''"]
    by (simp add: p sampleWorld_def reply_def blockSize_small) blast
  from a b show ?thesis by blast
qed

section \<open>Requests and write faults\<close>

text \<open>
  The range header of the probe is stored under its canonical key; a task header with
  the key \<open>user-agent\<close> is stored under \<open>User-Agent\<close> and then replaced by the default,
  because the task's map is looked up under the exact key.
\<close>

lemma canonical_range: "CanonicalMIMEHeaderKey ''range'' = ''Range''"
  by (simp add: CanonicalMIMEHeaderKey_def validHeaderFieldByte_def upper_def lower_def)

lemma probeRequest_range: "reqHeaders (probeRequest m) ''Range'' = Some ''bytes=0-''"
  by (simp add: probeRequest_def headerSet_def canonical_range)

lemma lower_case_user_agent_replaced:
  "setHeaders [(''user-agent'', ''curl'')] = [''User-Agent'' \<mapsto> defaultUA]"
  by (simp add: setHeaders_def headerSet_def CanonicalMIMEHeaderKey_def
      validHeaderFieldByte_def upper_def lower_def)

text \<open>
  A write fault on the destination stays behind the buffer when the body is smaller
  than the buffer: the copy returns no error, the error of the deferred \<open>Flush\<close> is
  dropped, and the file is left empty.
\<close>

lemma small_body_write_fault_dropped:
  "fst (singleThreadDownload (sampleTask 1)
          (withFault (WriteOp ''/tmp/asmr/a.mp3'')
             (sampleWorld [reply 200 4 [(''data'', EOF)]]))) = None
   \<and> files (snd (singleThreadDownload (sampleTask 1)
          (withFault (WriteOp ''/tmp/asmr/a.mp3'')
             (sampleWorld [reply 200 4 [(''data'', EOF)]])))) ''/tmp/asmr/a.mp3'' = Some []"
  by (simp add: singleThreadDownload_def sampleTask_def sampleWorld_def withFault_def
      reply_def client_Do_def bufWrite_def bufFlush_def Available_def bufferSize_def
      NewWriterSize_def)

lemma small_block_write_fault_dropped:
  "(case downloadBlocks (sampleTask 4) (mkBlock 0 3)
           (withFault (WriteOp ''/tmp/asmr/a.mp3'')
              (sampleWorld [reply 206 4 [(''data'', EOF)]])) of
      (err, block', w') \<Rightarrow> (err, BeginOffset block', files w' ''/tmp/asmr/a.mp3''))
   = (None, 4, Some [])"
  by (simp add: downloadBlocks_def openForBlock_def sampleWorld_def sampleTask_def reply_def
      withFault_def client_Do_def mkBlock_def writeChunk_def wrap64_def Let_def bufWrite_def
      bufFlush_def Available_def bufferSize_def NewWriterSize_def flushAt_def writeAt_def)

section \<open>The executor after the download\<close>

text \<open>Neither the gate nor the relocation calls the on-failure hook or removes a file
  before the copy.\<close>

lemma waitLoop_events:
  "ev \<in> set (fst (waitLoop ps)) \<Longrightarrow>
     ev = EvSleep 10 \<or> ev = EvActivity \<or> ev = EvLog Success \<or> (\<exists>r. ev = EvProbe r)"
proof (induction ps)
  case Nil
  then show ?case by auto
next
  case (Cons p ps)
  obtain n e where g: "getRcloneCacheUsage p = (n, e)" by (cases "getRcloneCacheUsage p")
  obtain tr' r' where w: "waitLoop ps = (tr', r')" by (cases "waitLoop ps")
  from Cons.prems g w have "ev \<in> {EvSleep 10, EvActivity, EvProbe (n, e), EvLog Success} \<or> ev \<in> set tr'"
    by (auto split: option.splits if_splits)
  with Cons.IH w show ?case by auto
qed

lemma gate_events:
  "ev \<in> set (fst (gate ps)) \<Longrightarrow>
     ev = EvSleep 10 \<or> ev = EvActivity \<or> (\<exists>l. ev = EvLog l) \<or> (\<exists>r. ev = EvProbe r)"
proof (induction ps)
  case Nil
  then show ?case by simp
next
  case (Cons p ps)
  obtain n e where g: "getRcloneCacheUsage p = (n, e)" by (cases "getRcloneCacheUsage p")
  obtain tr' r' where w: "gate ps = (tr', r')" by (cases "gate ps")
  obtain tr'' r'' where w': "waitLoop ps = (tr'', r'')" by (cases "waitLoop ps")
  from Cons.prems g w w' have
    "ev \<in> {EvSleep 10, EvActivity, EvProbe (n, e), EvLog Error, EvLog Warning}
      \<or> ev \<in> set tr' \<or> ev \<in> set tr''"
    by (auto split: option.splits if_splits)
  with Cons.IH w waitLoop_events [of ev ps] w' show ?case by auto
qed

lemma relocate_events:
  "relocate copied t w = (tr, w') \<Longrightarrow>
     tr = (if copyCompletes t w then [EvRemove (FullPath t)] else [EvLog Error])"
  by (auto simp: relocate_def copyCompletes_def split: option.splits if_splits)

lemma relocate_files:
  assumes "relocate copied t w = (tr, w')" and "FinalPath t \<noteq> FullPath t"
  shows "if copyCompletes t w
         then files w' (FullPath t) = None \<and> files w' (FinalPath t) = files w (FullPath t)
         else files w' (FullPath t) = files w (FullPath t)"
  using assms
  by (auto simp: relocate_def copyCompletes_def split: option.splits if_splits)

text \<open>\<open>Download\<close> changes nothing of the task but its block list, which the executor
  does not read.\<close>

lemma initDownload_fields:
  "initDownload m w = Some (e, m1, w1) \<Longrightarrow> \<exists>bs. m1 = m\<lparr>Blocks := bs\<rparr>"
proof -
  assume a: "initDownload m w = Some (e, m1, w1)"
  have "m1 = m \<or> (\<exists>bs. m1 = m\<lparr>Blocks := bs\<rparr>)"
    using a
    by (auto simp: initDownload_def Let_def
        split: option.splits prod.splits sum.splits if_splits)
  moreover have "m = m\<lparr>Blocks := Blocks m\<rparr>" by simp
  ultimately show ?thesis by metis
qed

lemma Download_fields:
  assumes "Download m w = Some (e, m1, w1)"
  shows "\<exists>bs. m1 = m\<lparr>Blocks := bs\<rparr>"
proof (cases "ThreadCount m < 2")
  case True
  with assms have "m1 = m" by (auto simp: Download_def split: prod.splits)
  then have "m1 = m\<lparr>Blocks := Blocks m\<rparr>" by simp
  then show ?thesis ..
next
  case False
  then obtain e' m' w' where i: "initDownload m w = Some (e', m', w')"
    using assms by (auto simp: Download_def split: option.splits)
  from initDownload_fields [OF i] obtain bs where m': "m' = m\<lparr>Blocks := bs\<rparr>" ..
  from assms False i have "m1 = m' \<or> (\<exists>bs'. m1 = m'\<lparr>Blocks := bs'\<rparr>)"
    by (auto simp: Download_def split: option.splits prod.splits if_splits)
  with m' show ?thesis by auto
qed

lemma relocate_Blocks: "relocate copied (t\<lparr>Blocks := bs\<rparr>) w = relocate copied t w"
  by (auto simp: relocate_def split: option.splits)

lemma afterDownload_Blocks:
  "afterDownload copied (t\<lparr>Blocks := bs\<rparr>) ps w = afterDownload copied t ps w"
  by (simp add: afterDownload_def relocate_Blocks)

lemma runTask_success:
  assumes "Download t w = Some (None, t1, w1)"
  shows "runTask copied t probes w =
     (case afterDownload copied t probes w1 of (tr, e, w2) \<Rightarrow> Some (EvActivity # tr, e, w2))"
proof -
  from Download_fields [OF assms] obtain bs where "t1 = t\<lparr>Blocks := bs\<rparr>" ..
  with assms show ?thesis
    by (simp add: runTask_def afterDownload_Blocks split: prod.splits)
qed

lemma runTask_downloaded:
  assumes "Download t w = Some (None, t1, w1)"
    and "FinalPath t \<noteq> []" and "FinalPath t \<noteq> FullPath t"
    and "gate probes = (gtr, Some rest)"
    and "relocate copied t w1 = (rtr, w2)"
  shows "runTask copied t probes w =
     Some (EvActivity # gtr @ rtr @ [EvActivity, EvLog Success], Done, w2)"
  using assms(2-5) by (simp add: runTask_success [OF assms(1)] afterDownload_def)

lemma afterDownload_no_hook:
  "EvOnFailure err \<notin> set (fst (afterDownload copied t ps w))"
proof -
  obtain gtr r where g: "gate ps = (gtr, r)" by (cases "gate ps")
  obtain rtr w' where rl: "relocate copied t w = (rtr, w')" by (cases "relocate copied t w")
  have 1: "EvOnFailure err \<notin> set gtr" using gate_events [of "EvOnFailure err" ps] g by auto
  have 2: "EvOnFailure err \<notin> set rtr" using relocate_events [OF rl] by (auto split: if_splits)
  show ?thesis using g rl 1 2 by (auto simp: afterDownload_def split: option.splits)
qed

lemma runTask_no_hook:
  assumes "Download t w = Some (None, t1, w1)"
  shows "EvOnFailure err \<notin> set (traceOf (runTask copied t probes w))"
proof -
  obtain tr e w2 where a: "afterDownload copied t probes w1 = (tr, e, w2)"
    by (cases "afterDownload copied t probes w1")
  with afterDownload_no_hook [of err copied t probes w1] have "EvOnFailure err \<notin> set tr" by simp
  with a show ?thesis by (simp add: runTask_success [OF assms] traceOf_def)
qed

lemma relocate_spec:
  "fst (relocate copied t w) @ [EvActivity, EvLog Success] = relocationEvents t w"
  using relocate_events [of copied t w "fst (relocate copied t w)" "snd (relocate copied t w)"]
  by (simp add: relocationEvents_def)

lemma runTask_passed:
  assumes "Download t w = Some (None, td, wd)"
    and "FinalPath t \<noteq> []" and "FinalPath t \<noteq> FullPath t"
    and "gate probes = (gtr, Some rest)"
  shows "runTask copied t probes w =
     Some (EvActivity # gtr @ relocationEvents t wd, Done, relocated copied t wd)"
  using runTask_downloaded [OF assms, of copied "fst (relocate copied t wd)"
      "snd (relocate copied t wd)"] relocate_spec [of copied t wd]
  by (simp add: relocated_def)

lemma runTask_blocked:
  assumes "Download t w = Some (None, td, wd)"
    and "FinalPath t \<noteq> []" and "FinalPath t \<noteq> FullPath t"
    and "gate probes = (gtr, None)"
  shows "runTask copied t probes w = Some (EvActivity # gtr, Blocked, wd)"
  using assms(2-4) by (simp add: runTask_success [OF assms(1)] afterDownload_def)

lemma Download_single_sample:
  "Download (sampleTask 1) (sampleWorld [reply 200 4 [(''data'', EOF)]]) =
     Some (None, sampleTask 1,
       (sampleWorld [])\<lparr>files := [''/tmp/asmr/a.mp3'' \<mapsto> ''data''],
                        sent := [plainRequest (sampleTask 1)]\<rparr>)"
  by (simp add: Download_def singleThreadDownload_def sampleWorld_def reply_def client_Do_def
        bufWrite_def bufFlush_def Available_def bufferSize_def NewWriterSize_def)
     (simp add: sampleTask_def)

lemma usageProbe_usage: "in_int64 n \<Longrightarrow> getRcloneCacheUsage (usageProbe n) = (n, None)"
  by (simp add: usageProbe_def okProbe_def getRcloneCacheUsage_def foldEq_def)

section \<open>The backpressure gate\<close>

lemma thresholds: "RcloneResumeThreshold < RclonePauseThreshold"
  by (simp add: RcloneResumeThreshold_def RclonePauseThreshold_def)

lemma prepend_prepend: "prepend a (prepend b x) = prepend (a @ b) x"
  by (cases x) simp

lemma prepend_Nil: "prepend [] x = x"
  by (cases x) simp

text \<open>A failing probe at the first check is logged and retried after a sleep.\<close>

lemma gate_failing_probe:
  "probeFails p \<Longrightarrow> gate (p # ps) = prepend (loggedRetry p) (gate ps)"
  by (cases "getRcloneCacheUsage p") (auto simp: probeFails_def loggedRetry_def)

lemma gate_failing_probes:
  "\<forall>p\<in>set fails. probeFails p \<Longrightarrow>
     gate (fails @ ps) = prepend (concat (map loggedRetry fails)) (gate ps)"
  by (induction fails)
    (simp_all add: prepend_Nil gate_failing_probe prepend_prepend del: gate.simps)

text \<open>In the wait loop every probe comes after a sleep; a probe that fails or is not
  below the resume threshold leaves the loop waiting, the first one below it ends it.\<close>

lemma waitLoop_waiting_probe:
  "keepsWaiting p \<Longrightarrow> waitLoop (p # ps) = prepend (waitRound p) (waitLoop ps)"
  by (cases "getRcloneCacheUsage p")
    (auto simp: keepsWaiting_def waitRound_def split: option.splits)

lemma waitLoop_waiting_probes:
  "\<forall>p\<in>set waits. keepsWaiting p \<Longrightarrow>
     waitLoop (waits @ ps) = prepend (concat (map waitRound waits)) (waitLoop ps)"
  by (induction waits)
    (simp_all add: prepend_Nil waitLoop_waiting_probe prepend_prepend del: waitLoop.simps)

lemma gate_first_sample_low:
  assumes "\<forall>q\<in>set fails. probeFails q" and "getRcloneCacheUsage p = (u, None)"
    and "u \<le> RclonePauseThreshold"
  shows "gate (fails @ p # rest) =
     (concat (map loggedRetry fails) @ [EvProbe (u, None)], Some rest)"
  using assms gate_failing_probes [of fails "p # rest"] by simp

lemma gate_waiting:
  assumes "\<forall>q\<in>set fails. probeFails q" and "getRcloneCacheUsage p = (u, None)"
    and "RclonePauseThreshold < u" and "\<forall>q\<in>set waits. keepsWaiting q"
  shows "gate (fails @ p # waits) =
     (concat (map loggedRetry fails) @ [EvProbe (u, None), EvLog Warning]
        @ concat (map waitRound waits) @ [EvSleep 10, EvActivity], None)"
  using assms gate_failing_probes [of fails "p # waits"]
    waitLoop_waiting_probes [of waits "[]"]
  by simp

lemma gate_resuming:
  assumes "\<forall>q\<in>set fails. probeFails q" and "getRcloneCacheUsage p = (u, None)"
    and "RclonePauseThreshold < u" and "\<forall>q\<in>set waits. keepsWaiting q"
    and "getRcloneCacheUsage r = (v, None)" and "v < RcloneResumeThreshold"
  shows "gate (fails @ p # waits @ r # rest) =
     (concat (map loggedRetry fails) @ [EvProbe (u, None), EvLog Warning]
        @ concat (map waitRound waits)
        @ [EvSleep 10, EvActivity, EvProbe (v, None), EvLog Success], Some rest)"
  using assms gate_failing_probes [of fails "p # waits @ r # rest"]
    waitLoop_waiting_probes [of waits "r # rest"]
  by simp

text \<open>
  Claim C6, as the code has it: in the backpressure gate, whenever a cache-usage sample
  exceeds the pause threshold (18 GiB), relocation is not performed until a later
  sample is strictly below the resume threshold (15 GiB), with a poll-interval sleep of
  10 seconds before every sample taken in between, and it is performed right after the
  first such sample; when the first sample that the probe delivers is at or below the
  pause threshold, relocation proceeds at once. A sample taken while waiting that is at
  or below the pause threshold but not below the resume threshold does not let
  relocation proceed. The run is that of a task whose download succeeded, with a final
  path distinct from the staging path; \<open>fails\<close> are probes that fail before the first
  sample \<open>u\<close>, \<open>waits\<close> the probes of the wait loop that fail or are not below the resume
  threshold, \<open>v\<close> the first sample below it. The events of the relocation are the removal
  of the staging file when the copy completes and an error log line otherwise.
\<close>

theorem gate_then_relocation:
  "Download t w = Some (None, td, wd) \<and> FinalPath t \<noteq> [] \<and> FinalPath t \<noteq> FullPath t
     \<and> (\<forall>q\<in>set fails. probeFails q) \<and> getRcloneCacheUsage p = (u, None)
   \<longrightarrow>
     (u \<le> RclonePauseThreshold \<longrightarrow>
        runTask copied t (fails @ p # rest) w =
          Some (EvActivity # (concat (map loggedRetry fails) @ [EvProbe (u, None)])
                  @ relocationEvents t wd,
                Done, relocated copied t wd))
   \<and> (RclonePauseThreshold < u \<and> (\<forall>q\<in>set waits. keepsWaiting q) \<longrightarrow>
        runTask copied t (fails @ p # waits) w =
          Some (EvActivity # concat (map loggedRetry fails)
                  @ [EvProbe (u, None), EvLog Warning] @ concat (map waitRound waits)
                  @ [EvSleep 10, EvActivity],
                Blocked, wd)
      \<and> (getRcloneCacheUsage r = (v, None) \<and> v < RcloneResumeThreshold \<longrightarrow>
           runTask copied t (fails @ p # waits @ r # rest) w =
             Some (EvActivity # (concat (map loggedRetry fails)
                     @ [EvProbe (u, None), EvLog Warning] @ concat (map waitRound waits)
                     @ [EvSleep 10, EvActivity, EvProbe (v, None), EvLog Success])
                     @ relocationEvents t wd,
                   Done, relocated copied t wd)))"
proof (intro impI conjI)
  assume a: "Download t w = Some (None, td, wd) \<and> FinalPath t \<noteq> [] \<and> FinalPath t \<noteq> FullPath t
     \<and> (\<forall>q\<in>set fails. probeFails q) \<and> getRcloneCacheUsage p = (u, None)"
  {
    assume "u \<le> RclonePauseThreshold"
    with a have "gate (fails @ p # rest) =
        (concat (map loggedRetry fails) @ [EvProbe (u, None)], Some rest)"
      by (intro gate_first_sample_low) auto
    with a runTask_passed [of t w td wd "fails @ p # rest" _ rest copied]
    show "runTask copied t (fails @ p # rest) w =
          Some (EvActivity # (concat (map loggedRetry fails) @ [EvProbe (u, None)])
                  @ relocationEvents t wd,
                Done, relocated copied t wd)"
      by simp
  }
  {
    assume b: "RclonePauseThreshold < u \<and> (\<forall>q\<in>set waits. keepsWaiting q)"
    with a have "gate (fails @ p # waits) =
        (concat (map loggedRetry fails) @ [EvProbe (u, None), EvLog Warning]
          @ concat (map waitRound waits) @ [EvSleep 10, EvActivity], None)"
      by (intro gate_waiting) auto
    with a runTask_blocked [of t w td wd "fails @ p # waits" _ copied]
    show "runTask copied t (fails @ p # waits) w =
          Some (EvActivity # concat (map loggedRetry fails)
                  @ [EvProbe (u, None), EvLog Warning] @ concat (map waitRound waits)
                  @ [EvSleep 10, EvActivity],
                Blocked, wd)"
      by simp
    assume c: "getRcloneCacheUsage r = (v, None) \<and> v < RcloneResumeThreshold"
    with a b have "gate (fails @ p # waits @ r # rest) =
        (concat (map loggedRetry fails) @ [EvProbe (u, None), EvLog Warning]
          @ concat (map waitRound waits)
          @ [EvSleep 10, EvActivity, EvProbe (v, None), EvLog Success], Some rest)"
      by (intro gate_resuming) auto
    with a runTask_passed [of t w td wd "fails @ p # waits @ r # rest" _ rest copied]
    show "runTask copied t (fails @ p # waits @ r # rest) w =
             Some (EvActivity # (concat (map loggedRetry fails)
                     @ [EvProbe (u, None), EvLog Warning] @ concat (map waitRound waits)
                     @ [EvSleep 10, EvActivity, EvProbe (v, None), EvLog Success])
                     @ relocationEvents t wd,
                   Done, relocated copied t wd)"
      by simp
  }
qed

lemma sample_paths:
  "FinalPath (sampleTask n) = ''/mnt/dl/a.mp3''" "FullPath (sampleTask n) = ''/tmp/asmr/a.mp3''"
  by (simp_all add: sampleTask_def)

lemma sample_copyCompletes:
  "copyCompletes (sampleTask 1)
     ((sampleWorld [])\<lparr>files := [''/tmp/asmr/a.mp3'' \<mapsto> ''data''],
                      sent := [plainRequest (sampleTask 1)]\<rparr>)"
  by (simp add: copyCompletes_def sample_paths sampleWorld_def)

lemma sample_relocated:
  "files (relocated copied (sampleTask 1)
     ((sampleWorld [])\<lparr>files := [''/tmp/asmr/a.mp3'' \<mapsto> ''data''],
                      sent := [plainRequest (sampleTask 1)]\<rparr>)) =
   [''/mnt/dl/a.mp3'' \<mapsto> ''data'']"
  by (auto simp: relocated_def relocate_def sample_paths sampleWorld_def)

lemma refused_fails: "probeFails (Inl (ErrTransport ''connection refused''))"
  by (simp add: probeFails_def getRcloneCacheUsage_def)

theorem gate_then_relocation_witness:
  "(traceOf (runTask 0 (sampleTask 1)
       ([Inl (ErrTransport ''connection refused'')] @ usageProbe (18 * GiB) # [])
       (sampleWorld [reply 200 4 [(''data'', EOF)]])) =
      [EvActivity, EvProbe (0, Some (ErrTransport ''connection refused'')), EvLog Error,
       EvSleep 10, EvActivity, EvProbe (18 * GiB, None),
       EvRemove ''/tmp/asmr/a.mp3'', EvActivity, EvLog Success]
    \<and> filesOf (runTask 0 (sampleTask 1)
       ([Inl (ErrTransport ''connection refused'')] @ usageProbe (18 * GiB) # [])
       (sampleWorld [reply 200 4 [(''data'', EOF)]])) = [''/mnt/dl/a.mp3'' \<mapsto> ''data''])
   \<and> (traceOf (runTask 0 (sampleTask 1)
       ([] @ usageProbe (19 * GiB)
          # [usageProbe (16 * GiB), Inl (ErrTransport ''connection refused'')])
       (sampleWorld [reply 200 4 [(''data'', EOF)]])) =
      [EvActivity, EvProbe (19 * GiB, None), EvLog Warning,
       EvSleep 10, EvActivity, EvProbe (16 * GiB, None),
       EvSleep 10, EvActivity, EvProbe (0, Some (ErrTransport ''connection refused'')),
       EvSleep 10, EvActivity]
    \<and> endOf (runTask 0 (sampleTask 1)
       ([] @ usageProbe (19 * GiB)
          # [usageProbe (16 * GiB), Inl (ErrTransport ''connection refused'')])
       (sampleWorld [reply 200 4 [(''data'', EOF)]])) = Some Blocked
    \<and> filesOf (runTask 0 (sampleTask 1)
       ([] @ usageProbe (19 * GiB)
          # [usageProbe (16 * GiB), Inl (ErrTransport ''connection refused'')])
       (sampleWorld [reply 200 4 [(''data'', EOF)]])) = [''/tmp/asmr/a.mp3'' \<mapsto> ''data''])
   \<and> (traceOf (runTask 0 (sampleTask 1)
       ([] @ usageProbe (19 * GiB)
          # [usageProbe (16 * GiB), Inl (ErrTransport ''connection refused'')]
          @ usageProbe (14 * GiB) # [])
       (sampleWorld [reply 200 4 [(''data'', EOF)]])) =
      [EvActivity, EvProbe (19 * GiB, None), EvLog Warning,
       EvSleep 10, EvActivity, EvProbe (16 * GiB, None),
       EvSleep 10, EvActivity, EvProbe (0, Some (ErrTransport ''connection refused'')),
       EvSleep 10, EvActivity, EvProbe (14 * GiB, None), EvLog Success,
       EvRemove ''/tmp/asmr/a.mp3'', EvActivity, EvLog Success]
    \<and> filesOf (runTask 0 (sampleTask 1)
       ([] @ usageProbe (19 * GiB)
          # [usageProbe (16 * GiB), Inl (ErrTransport ''connection refused'')]
          @ usageProbe (14 * GiB) # [])
       (sampleWorld [reply 200 4 [(''data'', EOF)]])) = [''/mnt/dl/a.mp3'' \<mapsto> ''data''])"
proof -
  let ?w = "sampleWorld [reply 200 4 [(''data'', EOF)]]"
  let ?wd = "(sampleWorld [])\<lparr>files := [''/tmp/asmr/a.mp3'' \<mapsto> ''data''],
                      sent := [plainRequest (sampleTask 1)]\<rparr>"
  let ?refused = "Inl (ErrTransport ''connection refused'') :: probe"
  have u18: "getRcloneCacheUsage (usageProbe (18 * GiB)) = (18 * GiB, None)"
    and u19: "getRcloneCacheUsage (usageProbe (19 * GiB)) = (19 * GiB, None)"
    and u16: "getRcloneCacheUsage (usageProbe (16 * GiB)) = (16 * GiB, None)"
    and u14: "getRcloneCacheUsage (usageProbe (14 * GiB)) = (14 * GiB, None)"
    by (simp_all add: usageProbe_usage in_int64_def GiB_def)
  have c: "18 * GiB \<le> RclonePauseThreshold" "RclonePauseThreshold < 19 * GiB"
    "\<not> 16 * GiB < RcloneResumeThreshold" "14 * GiB < RcloneResumeThreshold"
    by (simp_all add: GiB_def RclonePauseThreshold_def RcloneResumeThreshold_def)
  have r: "getRcloneCacheUsage ?refused = (0, Some (ErrTransport ''connection refused''))"
    by (simp add: getRcloneCacheUsage_def)
  have k: "\<forall>q\<in>set [usageProbe (16 * GiB), ?refused]. keepsWaiting q"
    by (simp add: keepsWaiting_def u16 c r)
  have ev: "relocationEvents (sampleTask 1) ?wd =
      [EvRemove ''/tmp/asmr/a.mp3'', EvActivity, EvLog Success]"
    by (simp add: relocationEvents_def sample_copyCompletes sample_paths)
  have a: "runTask 0 (sampleTask 1) ([?refused] @ usageProbe (18 * GiB) # []) ?w =
      Some ([EvActivity, EvProbe (0, Some (ErrTransport ''connection refused'')), EvLog Error,
             EvSleep 10, EvActivity, EvProbe (18 * GiB, None),
             EvRemove ''/tmp/asmr/a.mp3'', EvActivity, EvLog Success],
            Done, relocated 0 (sampleTask 1) ?wd)"
    using gate_then_relocation [where t = "sampleTask 1" and w = ?w and td = "sampleTask 1"
        and wd = ?wd and fails = "[?refused]" and p = "usageProbe (18 * GiB)"
        and u = "18 * GiB" and copied = 0 and rest = "[]"]
      Download_single_sample refused_fails u18 c(1)
    by (simp add: sample_paths loggedRetry_def r ev)
  have b: "runTask 0 (sampleTask 1)
        ([] @ usageProbe (19 * GiB) # [usageProbe (16 * GiB), ?refused]) ?w =
      Some ([EvActivity, EvProbe (19 * GiB, None), EvLog Warning,
             EvSleep 10, EvActivity, EvProbe (16 * GiB, None),
             EvSleep 10, EvActivity, EvProbe (0, Some (ErrTransport ''connection refused'')),
             EvSleep 10, EvActivity],
            Blocked, ?wd)"
    using gate_then_relocation [where t = "sampleTask 1" and w = ?w and td = "sampleTask 1"
        and wd = ?wd and fails = "[]" and p = "usageProbe (19 * GiB)"
        and u = "19 * GiB" and copied = 0
        and waits = "[usageProbe (16 * GiB), ?refused]"]
      Download_single_sample u19 c(2) k
    by (simp add: sample_paths waitRound_def r u16)
  have d: "runTask 0 (sampleTask 1)
        ([] @ usageProbe (19 * GiB) # [usageProbe (16 * GiB), ?refused]
           @ usageProbe (14 * GiB) # []) ?w =
      Some ([EvActivity, EvProbe (19 * GiB, None), EvLog Warning,
             EvSleep 10, EvActivity, EvProbe (16 * GiB, None),
             EvSleep 10, EvActivity, EvProbe (0, Some (ErrTransport ''connection refused'')),
             EvSleep 10, EvActivity, EvProbe (14 * GiB, None), EvLog Success,
             EvRemove ''/tmp/asmr/a.mp3'', EvActivity, EvLog Success],
            Done, relocated 0 (sampleTask 1) ?wd)"
    using gate_then_relocation [where t = "sampleTask 1" and w = ?w and td = "sampleTask 1"
        and wd = ?wd and fails = "[]" and p = "usageProbe (19 * GiB)"
        and u = "19 * GiB" and copied = 0
        and waits = "[usageProbe (16 * GiB), ?refused]"
        and r = "usageProbe (14 * GiB)" and v = "14 * GiB" and rest = "[]"]
      Download_single_sample u19 c(2) k u14 c(4)
    by (simp add: sample_paths waitRound_def r u16 ev)
  show ?thesis
    unfolding a b d by (simp add: traceOf_def endOf_def filesOf_def sample_relocated)
qed

text \<open>
  Claim C6 as stated lets every sample at or below the pause threshold release the
  relocation. After a sample of 19 GiB a sample of 16 GiB, which is below the pause
  threshold, leaves the task blocked: the staging file is where it was and nothing is at
  the final path.
\<close>

theorem gate_low_sample_counterexample:
  "16 * GiB \<le> RclonePauseThreshold
   \<and> endOf (runTask 0 (sampleTask 1) [usageProbe (19 * GiB), usageProbe (16 * GiB)]
        (sampleWorld [reply 200 4 [(''data'', EOF)]])) = Some Blocked
   \<and> filesOf (runTask 0 (sampleTask 1) [usageProbe (19 * GiB), usageProbe (16 * GiB)]
        (sampleWorld [reply 200 4 [(''data'', EOF)]])) = [''/tmp/asmr/a.mp3'' \<mapsto> ''data'']"
proof -
  have u: "getRcloneCacheUsage (usageProbe (19 * GiB)) = (19 * GiB, None)"
    "getRcloneCacheUsage (usageProbe (16 * GiB)) = (16 * GiB, None)"
    by (simp_all add: usageProbe_usage in_int64_def GiB_def)
  have c: "16 * GiB \<le> RclonePauseThreshold" "RclonePauseThreshold < 19 * GiB"
    "\<not> 16 * GiB < RcloneResumeThreshold"
    by (simp_all add: GiB_def RclonePauseThreshold_def RcloneResumeThreshold_def)
  have g: "gate [usageProbe (19 * GiB), usageProbe (16 * GiB)] =
      ([EvProbe (19 * GiB, None), EvLog Warning, EvSleep 10, EvActivity,
        EvProbe (16 * GiB, None), EvSleep 10, EvActivity], None)"
    by (simp add: u c)
  from runTask_blocked [OF Download_single_sample _ _ g, of 0] c(1)
  show ?thesis
    by (simp add: sample_paths endOf_def filesOf_def)
qed

section \<open>Probe failures\<close>

text \<open>
  Claim C7: a failure of the cache-usage probe never becomes the task's error and never
  skips or aborts the relocation: the executor logs, sleeps a fixed interval and probes
  again, for every number of consecutive failures. The loop of the first check (lines
  113 to 121) does so. The wait loop that is entered after a sample above the pause
  threshold (lines 130 to 141) handles the same failure without a log line: it tests
  \<open>err == nil\<close> and has no other branch. In the first run below a sample of 19 GiB is
  followed by a connection error, and the events of the task hold no log line at error
  level; in the second run the same error at the first check is logged.
\<close>

theorem wait_loop_probe_failure_not_logged:
  "traceOf (runTask 0 (sampleTask 1)
      [usageProbe (19 * GiB), Inl (ErrTransport ''connection refused''), usageProbe 0]
      (sampleWorld [reply 200 4 [(''data'', EOF)]])) =
     [EvActivity, EvProbe (19 * GiB, None), EvLog Warning,
      EvSleep 10, EvActivity, EvProbe (0, Some (ErrTransport ''connection refused'')),
      EvSleep 10, EvActivity, EvProbe (0, None), EvLog Success,
      EvRemove ''/tmp/asmr/a.mp3'', EvActivity, EvLog Success]
   \<and> traceOf (runTask 0 (sampleTask 1)
      [Inl (ErrTransport ''connection refused''), usageProbe 0]
      (sampleWorld [reply 200 4 [(''data'', EOF)]])) =
     [EvActivity, EvProbe (0, Some (ErrTransport ''connection refused'')), EvLog Error,
      EvSleep 10, EvActivity, EvProbe (0, None),
      EvRemove ''/tmp/asmr/a.mp3'', EvActivity, EvLog Success]"
proof -
  have u: "getRcloneCacheUsage (usageProbe (19 * GiB)) = (19 * GiB, None)"
    "getRcloneCacheUsage (usageProbe 0) = (0, None)"
    by (simp_all add: usageProbe_usage in_int64_def GiB_def)
  have r: "getRcloneCacheUsage (Inl (ErrTransport ''connection refused'')) =
      (0, Some (ErrTransport ''connection refused''))"
    by (simp add: getRcloneCacheUsage_def)
  have c: "RclonePauseThreshold < 19 * GiB" "0 < RcloneResumeThreshold"
    "\<not> RclonePauseThreshold < 0"
    by (simp_all add: GiB_def RclonePauseThreshold_def RcloneResumeThreshold_def)
  have g1: "gate [usageProbe (19 * GiB), Inl (ErrTransport ''connection refused''),
                  usageProbe 0] =
      ([EvProbe (19 * GiB, None), EvLog Warning,
        EvSleep 10, EvActivity, EvProbe (0, Some (ErrTransport ''connection refused'')),
        EvSleep 10, EvActivity, EvProbe (0, None), EvLog Success], Some [])"
    by (simp add: u r c)
  have g2: "gate [Inl (ErrTransport ''connection refused''), usageProbe 0] =
      ([EvProbe (0, Some (ErrTransport ''connection refused'')), EvLog Error,
        EvSleep 10, EvActivity, EvProbe (0, None)], Some [])"
    by (simp add: u r c)
  have ev: "relocationEvents (sampleTask 1)
      ((sampleWorld [])\<lparr>files := [''/tmp/asmr/a.mp3'' \<mapsto> ''data''],
                       sent := [plainRequest (sampleTask 1)]\<rparr>) =
      [EvRemove ''/tmp/asmr/a.mp3'', EvActivity, EvLog Success]"
    by (simp add: relocationEvents_def sample_copyCompletes sample_paths)
  from runTask_passed [OF Download_single_sample _ _ g1, of 0]
    runTask_passed [OF Download_single_sample _ _ g2, of 0]
  show ?thesis by (simp add: sample_paths traceOf_def ev)
qed

section \<open>Relocation\<close>

lemma gate_no_remove: "EvRemove p \<notin> set (fst (gate ps))"
  using gate_events [of "EvRemove p" ps] by auto

text \<open>
  Claim C8: during relocation the staging file is deleted only after the copy to the
  final path completed without error; if the copy, the creation of the destination or
  the opening of the source fails (or the directory cannot be made), the staging file
  is left as it is, the failure is only logged, and the on-failure hook is not called.
  The run is that of a task whose download succeeded, with a final path distinct from
  the staging path and a gate that lets it through with the events \<open>gtr\<close>: then the
  events of the task are those of the gate, followed by the one event of the relocation
  (the removal of the staging file when the copy completes, an error log line
  otherwise) and the closing log line.
\<close>

theorem relocation_removes_staging_only_after_copy:
  "Download t w = Some (None, td, wd) \<and> FinalPath t \<noteq> [] \<and> FinalPath t \<noteq> FullPath t
     \<and> gate probes = (gtr, Some rest)
   \<longrightarrow> traceOf (runTask copied t probes w) =
         EvActivity # gtr
           @ (if copyCompletes t wd then [EvRemove (FullPath t)] else [EvLog Error])
           @ [EvActivity, EvLog Success]
     \<and> EvRemove (FullPath t) \<notin> set gtr
     \<and> (\<forall>err. EvOnFailure err \<notin> set (traceOf (runTask copied t probes w)))
     \<and> (if copyCompletes t wd
        then filesOf (runTask copied t probes w) (FullPath t) = None
           \<and> filesOf (runTask copied t probes w) (FinalPath t) = files wd (FullPath t)
        else filesOf (runTask copied t probes w) (FullPath t) = files wd (FullPath t))"
proof (intro impI)
  assume a: "Download t w = Some (None, td, wd) \<and> FinalPath t \<noteq> [] \<and> FinalPath t \<noteq> FullPath t
     \<and> gate probes = (gtr, Some rest)"
  obtain rtr w2 where r: "relocate copied t wd = (rtr, w2)" by (cases "relocate copied t wd")
  have run: "runTask copied t probes w =
      Some (EvActivity # gtr @ rtr @ [EvActivity, EvLog Success], Done, w2)"
    using runTask_downloaded [of t w td wd probes gtr rest copied rtr w2] a r by blast
  have 1: "traceOf (runTask copied t probes w) =
         EvActivity # gtr
           @ (if copyCompletes t wd then [EvRemove (FullPath t)] else [EvLog Error])
           @ [EvActivity, EvLog Success]"
    using run relocate_events [OF r] by (simp add: traceOf_def)
  have 2: "EvRemove (FullPath t) \<notin> set gtr"
    using gate_no_remove [of "FullPath t" probes] a by simp
  have 3: "\<forall>err. EvOnFailure err \<notin> set (traceOf (runTask copied t probes w))"
    using runTask_no_hook [of t w td wd] a by blast
  have 4: "if copyCompletes t wd
        then filesOf (runTask copied t probes w) (FullPath t) = None
           \<and> filesOf (runTask copied t probes w) (FinalPath t) = files wd (FullPath t)
        else filesOf (runTask copied t probes w) (FullPath t) = files wd (FullPath t)"
    using relocate_files [OF r] a run by (simp add: filesOf_def)
  from 1 2 3 4 show "traceOf (runTask copied t probes w) =
         EvActivity # gtr
           @ (if copyCompletes t wd then [EvRemove (FullPath t)] else [EvLog Error])
           @ [EvActivity, EvLog Success]
     \<and> EvRemove (FullPath t) \<notin> set gtr
     \<and> (\<forall>err. EvOnFailure err \<notin> set (traceOf (runTask copied t probes w)))
     \<and> (if copyCompletes t wd
        then filesOf (runTask copied t probes w) (FullPath t) = None
           \<and> filesOf (runTask copied t probes w) (FinalPath t) = files wd (FullPath t)
        else filesOf (runTask copied t probes w) (FullPath t) = files wd (FullPath t))"
    by blast
qed


lemma Download_single_faulty:
  "Download (sampleTask 1)
       (withFault (CopyOp ''/tmp/asmr/a.mp3'' ''/mnt/dl/a.mp3'')
          (sampleWorld [reply 200 4 [(''data'', EOF)]])) =
     Some (None, sampleTask 1,
       (withFault (CopyOp ''/tmp/asmr/a.mp3'' ''/mnt/dl/a.mp3'') (sampleWorld []))
          \<lparr>files := [''/tmp/asmr/a.mp3'' \<mapsto> ''data''],
           sent := [plainRequest (sampleTask 1)]\<rparr>)"
  by (simp add: Download_def singleThreadDownload_def sampleWorld_def reply_def client_Do_def
        withFault_def bufWrite_def bufFlush_def Available_def bufferSize_def NewWriterSize_def)
     (simp add: sampleTask_def)

theorem relocation_removes_staging_only_after_copy_witness:
  "(traceOf (runTask 2 (sampleTask 1) [usageProbe 0]
        (withFault (CopyOp ''/tmp/asmr/a.mp3'' ''/mnt/dl/a.mp3'')
           (sampleWorld [reply 200 4 [(''data'', EOF)]]))) =
      [EvActivity, EvProbe (0, None), EvLog Error, EvActivity, EvLog Success]
    \<and> filesOf (runTask 2 (sampleTask 1) [usageProbe 0]
        (withFault (CopyOp ''/tmp/asmr/a.mp3'' ''/mnt/dl/a.mp3'')
           (sampleWorld [reply 200 4 [(''data'', EOF)]]))) ''/tmp/asmr/a.mp3'' = Some ''data'')
   \<and> (traceOf (runTask 2 (sampleTask 1) [usageProbe 0]
           (sampleWorld [reply 200 4 [(''data'', EOF)]])) =
      [EvActivity, EvProbe (0, None), EvRemove ''/tmp/asmr/a.mp3'', EvActivity, EvLog Success]
    \<and> filesOf (runTask 2 (sampleTask 1) [usageProbe 0]
           (sampleWorld [reply 200 4 [(''data'', EOF)]])) ''/tmp/asmr/a.mp3'' = None
    \<and> filesOf (runTask 2 (sampleTask 1) [usageProbe 0]
           (sampleWorld [reply 200 4 [(''data'', EOF)]])) ''/mnt/dl/a.mp3'' = Some ''data'')"
proof -
  have g: "gate [usageProbe 0] = ([EvProbe (0, None)], Some [])"
    by (simp add: usageProbe_usage in_int64_def RclonePauseThreshold_def)
  have p: "FinalPath (sampleTask 1) = ''/mnt/dl/a.mp3''" "FullPath (sampleTask 1) = ''/tmp/asmr/a.mp3''"
    by (simp_all add: sampleTask_def)
  let ?bad = "(withFault (CopyOp ''/tmp/asmr/a.mp3'' ''/mnt/dl/a.mp3'') (sampleWorld []))
          \<lparr>files := [''/tmp/asmr/a.mp3'' \<mapsto> ''data''], sent := [plainRequest (sampleTask 1)]\<rparr>"
  let ?good = "(sampleWorld [])\<lparr>files := [''/tmp/asmr/a.mp3'' \<mapsto> ''data''],
                        sent := [plainRequest (sampleTask 1)]\<rparr>"
  have cb: "\<not> copyCompletes (sampleTask 1) ?bad"
    by (simp add: copyCompletes_def p withFault_def sampleWorld_def)
  have cg: "copyCompletes (sampleTask 1) ?good"
    by (simp add: copyCompletes_def p sampleWorld_def)
  have a: "traceOf (runTask 2 (sampleTask 1) [usageProbe 0]
        (withFault (CopyOp ''/tmp/asmr/a.mp3'' ''/mnt/dl/a.mp3'')
           (sampleWorld [reply 200 4 [(''data'', EOF)]]))) =
      [EvActivity, EvProbe (0, None), EvLog Error, EvActivity, EvLog Success]
    \<and> filesOf (runTask 2 (sampleTask 1) [usageProbe 0]
        (withFault (CopyOp ''/tmp/asmr/a.mp3'' ''/mnt/dl/a.mp3'')
           (sampleWorld [reply 200 4 [(''data'', EOF)]]))) ''/tmp/asmr/a.mp3'' = Some ''data''"
    using relocation_removes_staging_only_after_copy
      [where t = "sampleTask 1" and td = "sampleTask 1" and wd = ?bad and copied = 2
        and probes = "[usageProbe 0]" and gtr = "[EvProbe (0, None)]" and rest = "[]"
        and w = "withFault (CopyOp ''/tmp/asmr/a.mp3'' ''/mnt/dl/a.mp3'')
           (sampleWorld [reply 200 4 [(''data'', EOF)]])"]
      Download_single_faulty g cb
    by (simp add: p)
  have b: "traceOf (runTask 2 (sampleTask 1) [usageProbe 0]
           (sampleWorld [reply 200 4 [(''data'', EOF)]])) =
      [EvActivity, EvProbe (0, None), EvRemove ''/tmp/asmr/a.mp3'', EvActivity, EvLog Success]
    \<and> filesOf (runTask 2 (sampleTask 1) [usageProbe 0]
           (sampleWorld [reply 200 4 [(''data'', EOF)]])) ''/tmp/asmr/a.mp3'' = None
    \<and> filesOf (runTask 2 (sampleTask 1) [usageProbe 0]
           (sampleWorld [reply 200 4 [(''data'', EOF)]])) ''/mnt/dl/a.mp3'' = Some ''data''"
    using relocation_removes_staging_only_after_copy
      [where t = "sampleTask 1" and td = "sampleTask 1" and wd = ?good and copied = 2
        and probes = "[usageProbe 0]" and gtr = "[EvProbe (0, None)]" and rest = "[]"
        and w = "sampleWorld [reply 200 4 [(''data'', EOF)]]"]
      Download_single_sample g cg
    by (simp add: p)
  from a b show ?thesis by blast
qed

section \<open>Decoding the probe response\<close>













text \<open>A key written with the long s selects the field as the plain key does.\<close>

lemma long_s_key_selects_field:
  "getRcloneCacheUsage
     (okProbe 200 (JObject [(''di'' @ [CHR 0xC5, CHR 0xBF] @ ''kCache'',
                             JObject [(''bytesUsed'', JInt 7)])])) = (7, None)"
  by (simp add: getRcloneCacheUsage_def okProbe_def foldEq_def lower_def in_int64_def)




section \<open>Admission control\<close>

text \<open>
  In every reachable state \<open>Count\<close> is the number of goroutines between their increment
  and their deferred decrement, and the wait group counts exactly the goroutines
  admitted and not yet finished: every admission is matched by one decrement, that of
  the goroutine's deferred function.
\<close>

lemma pool_accounting:
  "reachable n s \<Longrightarrow>
     Limit s = n \<and> Count s = int (length (running s))
     \<and> waitGroup s = int (length (launched s)) + Count s"
proof (induction rule: reachable.induct)
  case (reach_init n)
  then show ?case by (simp add: NewWorkerPool_def)
next
  case (reach_step n s s')
  from reach_step.hyps(2) reach_step.IH show ?case
  proof (cases rule: step.cases)
    case (start t)
    then have "int (length (remove1 t (launched s))) = int (length (launched s)) - 1"
      unfolding length_remove1 by (cases "launched s") simp_all
    with start reach_step.IH show ?thesis by simp
  next
    case (finish t)
    then have "int (length (remove1 t (running s))) = int (length (running s)) - 1"
      unfolding length_remove1 by (cases "running s") simp_all
    with finish reach_step.IH show ?thesis by simp
  qed auto
qed

text \<open>
  Claim C4: in every reachable state of the pool the active count \<open>Count\<close> never
  exceeds the capacity \<open>Limit\<close>. The dispatcher tests \<open>Count\<close> under the lock, but the
  increment is done later by the goroutine it launches; a second task can be admitted
  in between. With a capacity of 1 and a burst of two tasks the pool reaches a state
  with \<open>Count = 2\<close>: task 1 is enqueued, received and admitted, task 2 is enqueued,
  received and admitted while \<open>Count\<close> is still 0, then both goroutines increment.
\<close>

theorem pool_count_exceeds_limit:
  "reachable 1 \<lparr>Limit = 1, Count = 2, TaskQueue = [], waitGroup = 2, received = None,
                launched = [], running = [1, 2]\<rparr>
   \<and> Limit \<lparr>Limit = 1, Count = 2, TaskQueue = [], waitGroup = 2, received = None,
                launched = [], running = [1, 2]\<rparr>
       < Count \<lparr>Limit = 1, Count = 2, TaskQueue = [], waitGroup = 2, received = None,
                launched = [], running = [1, 2]\<rparr>"
proof -
  have r0: "reachable 1 \<lparr>Limit = 1, Count = 0, TaskQueue = [], waitGroup = 0,
      received = None, launched = [], running = []\<rparr>"
    using reach_init [of 1] by (simp add: NewWorkerPool_def)
  have r1: "reachable 1 \<lparr>Limit = 1, Count = 0, TaskQueue = [1], waitGroup = 0,
      received = None, launched = [], running = []\<rparr>"
    using reach_step [OF r0 enqueue [where t = 1]] by simp
  have r2: "reachable 1 \<lparr>Limit = 1, Count = 0, TaskQueue = [], waitGroup = 0,
      received = Some 1, launched = [], running = []\<rparr>"
    using reach_step [OF r1 receive [where t = 1 and q = "[]"]] by simp
  have r3: "reachable 1 \<lparr>Limit = 1, Count = 0, TaskQueue = [], waitGroup = 1,
      received = None, launched = [1], running = []\<rparr>"
    using reach_step [OF r2 admit [where t = 1]] by simp
  have r4: "reachable 1 \<lparr>Limit = 1, Count = 0, TaskQueue = [2], waitGroup = 1,
      received = None, launched = [1], running = []\<rparr>"
    using reach_step [OF r3 enqueue [where t = 2]] by simp
  have r5: "reachable 1 \<lparr>Limit = 1, Count = 0, TaskQueue = [], waitGroup = 1,
      received = Some 2, launched = [1], running = []\<rparr>"
    using reach_step [OF r4 receive [where t = 2 and q = "[]"]] by simp
  have r6: "reachable 1 \<lparr>Limit = 1, Count = 0, TaskQueue = [], waitGroup = 2,
      received = None, launched = [1, 2], running = []\<rparr>"
    using reach_step [OF r5 admit [where t = 2]] by simp
  have r7: "reachable 1 \<lparr>Limit = 1, Count = 1, TaskQueue = [], waitGroup = 2,
      received = None, launched = [2], running = [1]\<rparr>"
    using reach_step [OF r6 start [where t = 1]] by simp
  have r8: "reachable 1 \<lparr>Limit = 1, Count = 2, TaskQueue = [], waitGroup = 2,
      received = None, launched = [], running = [1, 2]\<rparr>"
    using reach_step [OF r7 start [where t = 2]] by simp
  then show ?thesis by simp
qed

end
